theory Spec2Isabelle
  imports Complex_Main "HOL-Library.Word"
begin

unbundle bit_operations_syntax

section \<open>Machine types\<close>

type_synonym u8 = "8 word"
type_synonym u16 = "16 word"
type_synonym u32 = "32 word"
type_synonym u64 = "64 word"

text \<open>
  A C++ \<open>int\<close> is 32 bits, two's complement: \<open>sint\<close> reads its value. Signed overflow is
  undefined in C++; the compiled increment wraps, and so does the model.
\<close>

type_synonym i32 = "32 word"

text \<open>
  A \<open>double\<close> that the code computes from integer counters. The model does not round: it
  records the expression that produced the value. \<open>Dquot c t\<close> is the double that
  \<open>(double)c / t\<close> evaluates to, \<open>Dpct c t\<close> the double that \<open>(double)c / t * 100.0\<close> evaluates
  to, \<open>D0\<close> the literal \<open>0.0\<close>.
\<close>

datatype double = D0 | Dquot nat nat | Dpct int int

text \<open>
  Indexing a \<open>std::vector\<close> beyond its size is undefined behaviour in C++. Where a
  function of the simulator can do so, its model returns the fault as a value.
\<close>

datatype fault = OutOfBounds

section \<open>MIPSSimulator: the single-class simulator\<close>

text \<open>The stage slot of \<open>MIPSSimulator\<close>: a fetched word, its pc and three flags.\<close>

record SimStage =
  instruction :: u32
  stage_pc :: u32
  valid :: bool
  stall :: bool
  flush :: bool

text \<open>The counters are \<open>int\<close> in the source.\<close>

record SimBranchStats =
  total_branches :: i32
  correct_predictions :: i32
  incorrect_predictions :: i32

record MIPSSimulator =
  registers :: "u32 list"
  memory :: "u8 list"
  pc :: u32
  halted :: bool
  step_mode :: bool
  pipeline_enabled :: bool
  pipeline_stages :: "SimStage list"
  branch_prediction_enabled :: bool
  prediction_type :: string
  branch_history_table :: "u32 \<rightharpoonup> bool"
  branch_stats :: SimBranchStats

text \<open>The decoded instruction of \<open>MIPSSimulator\<close>; \<open>type\<close> is the string "R", "I" or "J".\<close>

record SimInstruction =
  raw :: u32
  opcode :: u8
  rs :: u8
  rt :: u8
  rd :: u8
  immediate :: u16
  jump_addr :: u32
  funct :: u8
  shamt :: u8
  itype :: string

text \<open>
  \<open>address < memory.size() - 3\<close>: the address is widened to \<open>size_t\<close> (64 bits) and the
  subtraction is unsigned, so it wraps for a memory of fewer than three bytes.
\<close>

definition isValidAddress :: "MIPSSimulator \<Rightarrow> u32 \<Rightarrow> bool" where
  "isValidAddress s address \<longleftrightarrow>
     unat address < (length (memory s) + 2 ^ 64 - 3) mod 2 ^ 64"

text \<open>
  The big-endian word at four consecutive bytes, as \<open>getMemory\<close> and the fetch read it.
  The source shifts each byte as an \<open>int\<close>; the model takes the same bits in a 32-bit word.
\<close>

definition wordAt :: "u8 list \<Rightarrow> u32 \<Rightarrow> u32" where
  "wordAt mem address =
     push_bit 24 (ucast (mem ! unat address)) OR
     push_bit 16 (ucast (mem ! unat (address + 1))) OR
     push_bit 8 (ucast (mem ! unat (address + 2))) OR
     ucast (mem ! unat (address + 3))"

definition storeWord :: "u8 list \<Rightarrow> u32 \<Rightarrow> u32 \<Rightarrow> u8 list" where
  "storeWord mem address v =
     (((mem[unat address := ucast (drop_bit 24 v AND 0xFF)])
          [unat (address + 1) := ucast (drop_bit 16 v AND 0xFF)])
          [unat (address + 2) := ucast (drop_bit 8 v AND 0xFF)])
          [unat (address + 3) := ucast (v AND 0xFF)]"

definition getRegister :: "MIPSSimulator \<Rightarrow> int \<Rightarrow> u32" where
  "getRegister s reg = (if reg \<ge> 0 \<and> reg < 32 then registers s ! nat reg else 0)"

definition setRegister :: "MIPSSimulator \<Rightarrow> int \<Rightarrow> u32 \<Rightarrow> MIPSSimulator" where
  "setRegister s reg v =
     (if reg \<ge> 1 \<and> reg < 32 then s\<lparr>registers := (registers s)[nat reg := v]\<rparr> else s)"

definition getMemory :: "MIPSSimulator \<Rightarrow> u32 \<Rightarrow> u32" where
  "getMemory s address = (if isValidAddress s address then wordAt (memory s) address else 0)"

definition setMemory :: "MIPSSimulator \<Rightarrow> u32 \<Rightarrow> u32 \<Rightarrow> MIPSSimulator" where
  "setMemory s address v =
     (if isValidAddress s address then s\<lparr>memory := storeWord (memory s) address v\<rparr> else s)"

subsection \<open>Construction and reset\<close>

definition emptyStage :: SimStage where
  "emptyStage = \<lparr>instruction = 0, stage_pc = 0, valid = False, stall = False, flush = False\<rparr>"

text \<open>\<open>initializePipeline\<close>: five slots, every field of each cleared.\<close>

definition initializePipeline :: "MIPSSimulator \<Rightarrow> MIPSSimulator" where
  "initializePipeline s = s\<lparr>pipeline_stages := replicate 5 emptyStage\<rparr>"

definition noStats :: SimBranchStats where
  "noStats = \<lparr>total_branches = 0, correct_predictions = 0, incorrect_predictions = 0\<rparr>"

text \<open>The constructor: 32 registers and 65536 bytes of memory, all zero.\<close>

definition newMIPSSimulator :: MIPSSimulator where
  "newMIPSSimulator =
     \<lparr>registers = replicate 32 0, memory = replicate 65536 0, pc = 0, halted = False,
      step_mode = False, pipeline_enabled = False, pipeline_stages = replicate 5 emptyStage,
      branch_prediction_enabled = False, prediction_type = ''static'',
      branch_history_table = Map.empty, branch_stats = noStats\<rparr>"

text \<open>\<open>reset\<close> clears the registers, pc, the halt flag and the statistics; not the memory.\<close>

definition reset :: "MIPSSimulator \<Rightarrow> MIPSSimulator" where
  "reset s =
     (let s1 = s\<lparr>registers := replicate (length (registers s)) 0, pc := 0, halted := False\<rparr>;
          s2 = (if pipeline_enabled s1 then initializePipeline s1 else s1)
      in s2\<lparr>branch_stats := noStats\<rparr>)"

definition enablePipeline :: "MIPSSimulator \<Rightarrow> bool \<Rightarrow> MIPSSimulator" where
  "enablePipeline s enable =
     (let s1 = s\<lparr>pipeline_enabled := enable\<rparr> in if enable then initializePipeline s1 else s1)"

subsection \<open>Decoding and the ALU\<close>

definition decodeInstruction :: "u32 \<Rightarrow> SimInstruction" where
  "decodeInstruction w =
     (let opc = (ucast (drop_bit 26 w AND 0x3F) :: u8) in
      \<lparr>raw = w,
       opcode = opc,
       rs = ucast (drop_bit 21 w AND 0x1F),
       rt = ucast (drop_bit 16 w AND 0x1F),
       rd = ucast (drop_bit 11 w AND 0x1F),
       immediate = ucast (w AND 0xFFFF),
       jump_addr = w AND 0x3FFFFFF,
       funct = ucast (w AND 0x3F),
       shamt = ucast (drop_bit 6 w AND 0x1F),
       itype = (if opc = 0 then ''R'' else if opc = 2 \<or> opc = 3 then ''J'' else ''I'')\<rparr>)"

text \<open>The constants of namespace \<open>MIPS\<close> that the simulator uses, with the header's values.\<close>

definition FUNCT_ADD :: u8 where "FUNCT_ADD = 0x20"
definition FUNCT_SUB :: u8 where "FUNCT_SUB = 0x22"
definition FUNCT_AND :: u8 where "FUNCT_AND = 0x24"
definition FUNCT_OR :: u8 where "FUNCT_OR = 0x25"
definition FUNCT_SLT :: u8 where "FUNCT_SLT = 0x28"
definition FUNCT_JR :: u8 where "FUNCT_JR = 0x08"
definition OPCODE_ADDI :: u8 where "OPCODE_ADDI = 0x08"
definition OPCODE_LW :: u8 where "OPCODE_LW = 0x23"
definition OPCODE_SW :: u8 where "OPCODE_SW = 0x2B"
definition OPCODE_BEQ :: u8 where "OPCODE_BEQ = 0x04"
definition OPCODE_BNE :: u8 where "OPCODE_BNE = 0x05"
definition OPCODE_J :: u8 where "OPCODE_J = 0x02"
definition OPCODE_JAL :: u8 where "OPCODE_JAL = 0x03"

lemmas MIPS_constants =
  FUNCT_ADD_def FUNCT_SUB_def FUNCT_AND_def FUNCT_OR_def FUNCT_SLT_def FUNCT_JR_def
  OPCODE_ADDI_def OPCODE_LW_def OPCODE_SW_def OPCODE_BEQ_def OPCODE_BNE_def OPCODE_J_def
  OPCODE_JAL_def

datatype ALU_Operation = ALU_ADD | ALU_SUB | ALU_AND | ALU_OR | ALU_XOR | ALU_NOR | ALU_SLT | ALU_SLTU | ALU_SLL | ALU_SRL | ALU_SRA

record ALU_Result =
  alu_value :: u32
  alu_zero :: bool
  alu_overflow :: bool
  alu_carry :: bool

definition detectOverflow :: "u32 \<Rightarrow> u32 \<Rightarrow> u32 \<Rightarrow> bool \<Rightarrow> bool" where
  "detectOverflow a b result is_sub =
     (let b' = (if is_sub then NOT b + 1 else b);
          a_sign = (a AND 0x80000000 \<noteq> 0);
          b_sign = (b' AND 0x80000000 \<noteq> 0);
          result_sign = (result AND 0x80000000 \<noteq> 0)
      in a_sign = b_sign \<and> a_sign \<noteq> result_sign)"

definition ALU_value :: "u32 \<Rightarrow> u32 \<Rightarrow> ALU_Operation \<Rightarrow> u32" where
  "ALU_value operand1 operand2 op =
     (case op of
        ALU_ADD \<Rightarrow> operand1 + operand2
      | ALU_SUB \<Rightarrow> operand1 - operand2
      | ALU_AND \<Rightarrow> operand1 AND operand2
      | ALU_OR \<Rightarrow> operand1 OR operand2
      | ALU_XOR \<Rightarrow> operand1 XOR operand2
      | ALU_NOR \<Rightarrow> NOT (operand1 OR operand2)
      | ALU_SLT \<Rightarrow> (if sint operand1 < sint operand2 then 1 else 0)
      | ALU_SLTU \<Rightarrow> (if operand1 < operand2 then 1 else 0)
      | _ \<Rightarrow> 0)"

definition ALU_execute :: "u32 \<Rightarrow> u32 \<Rightarrow> ALU_Operation \<Rightarrow> ALU_Result" where
  "ALU_execute operand1 operand2 op =
     (let v = ALU_value operand1 operand2 op in
      \<lparr>alu_value = v,
       alu_zero = (v = 0),
       alu_overflow =
         (case op of ALU_ADD \<Rightarrow> detectOverflow operand1 operand2 v False
                   | ALU_SUB \<Rightarrow> detectOverflow operand1 operand2 v True
                   | _ \<Rightarrow> False),
       alu_carry =
         (case op of ALU_ADD \<Rightarrow> v < operand1 | ALU_SUB \<Rightarrow> operand1 < operand2 | _ \<Rightarrow> False)\<rparr>)"

definition signExtend16 :: "u16 \<Rightarrow> u32" where
  "signExtend16 v = (if v AND 0x8000 \<noteq> 0 then ucast v OR 0xFFFF0000 else ucast v)"

subsection \<open>The direct interpreter\<close>

text \<open>
  \<open>predictBranch\<close>: \<open>branch_history_table[pc]\<close> on a \<open>std::map\<close> inserts \<open>false\<close> for a pc
  it has not seen, so the table is returned with the prediction.
\<close>

definition predictBranch :: "MIPSSimulator \<Rightarrow> u32 \<Rightarrow> bool \<times> MIPSSimulator" where
  "predictBranch s a =
     (if prediction_type s = ''static'' then (False, s)
      else if prediction_type s = ''dynamic'' then
        (case branch_history_table s a of
           None \<Rightarrow> (False, s\<lparr>branch_history_table := (branch_history_table s)(a \<mapsto> False)\<rparr>)
         | Some b \<Rightarrow> (b, s))
      else (False, s))"

definition updateBranchPredictor :: "MIPSSimulator \<Rightarrow> u32 \<Rightarrow> bool \<Rightarrow> MIPSSimulator" where
  "updateBranchPredictor s a taken =
     (if prediction_type s = ''dynamic''
      then s\<lparr>branch_history_table := (branch_history_table s)(a \<mapsto> taken)\<rparr> else s)"

text \<open>The block under \<open>if (branch_prediction_enabled)\<close>, the same text in BEQ and BNE.\<close>

definition countBranch :: "MIPSSimulator \<Rightarrow> bool \<Rightarrow> MIPSSimulator" where
  "countBranch s branch_taken =
     (if branch_prediction_enabled s then
        (let st = branch_stats s;
             s1 = s\<lparr>branch_stats := st\<lparr>total_branches := total_branches st + 1\<rparr>\<rparr>;
             (predicted, s2) = predictBranch s1 (pc s1);
             st2 = branch_stats s2;
             s3 = (if predicted = branch_taken
                   then s2\<lparr>branch_stats := st2\<lparr>correct_predictions := correct_predictions st2 + 1\<rparr>\<rparr>
                   else s2\<lparr>branch_stats := st2\<lparr>incorrect_predictions := incorrect_predictions st2 + 1\<rparr>\<rparr>)
         in updateBranchPredictor s3 (pc s3) branch_taken)
      else s)"

definition setReg :: "MIPSSimulator \<Rightarrow> u8 \<Rightarrow> u32 \<Rightarrow> MIPSSimulator" where
  "setReg s r v = s\<lparr>registers := (registers s)[unat r := v]\<rparr>"

definition regOf :: "MIPSSimulator \<Rightarrow> u8 \<Rightarrow> u32" where
  "regOf s r = registers s ! unat r"

text \<open>
  \<open>executeInstruction\<close>. Each branch returns the simulator after the instruction's writes
  and the next pc; the function then stores the pc and returns true. A funct or opcode
  without a case falls through the switch and only advances the pc.
\<close>

definition executeR :: "SimInstruction \<Rightarrow> MIPSSimulator \<Rightarrow> MIPSSimulator \<times> u32" where
  "executeR instr s =
     (let next_pc = pc s + 4; a = regOf s (rs instr); b = regOf s (rt instr) in
      if funct instr = FUNCT_ADD then (setReg s (rd instr) (alu_value (ALU_execute a b ALU_ADD)), next_pc)
      else if funct instr = FUNCT_SUB then (setReg s (rd instr) (alu_value (ALU_execute a b ALU_SUB)), next_pc)
      else if funct instr = FUNCT_AND then (setReg s (rd instr) (alu_value (ALU_execute a b ALU_AND)), next_pc)
      else if funct instr = FUNCT_OR then (setReg s (rd instr) (alu_value (ALU_execute a b ALU_OR)), next_pc)
      else if funct instr = FUNCT_SLT then (setReg s (rd instr) (alu_value (ALU_execute a b ALU_SLT)), next_pc)
      else if funct instr = FUNCT_JR then (s, a)
      else (s, next_pc))"

definition executeI :: "SimInstruction \<Rightarrow> MIPSSimulator \<Rightarrow> MIPSSimulator \<times> u32" where
  "executeI instr s =
     (let next_pc = pc s + 4;
          imm_extended = signExtend16 (immediate instr);
          addr = regOf s (rs instr) + imm_extended in
      if opcode instr = OPCODE_ADDI then (setReg s (rt instr) (regOf s (rs instr) + imm_extended), next_pc)
      else if opcode instr = OPCODE_LW then
        (if isValidAddress s addr then (setReg s (rt instr) (wordAt (memory s) addr), next_pc)
         else (s, next_pc))
      else if opcode instr = OPCODE_SW then
        (if isValidAddress s addr
         then (s\<lparr>memory := storeWord (memory s) addr (regOf s (rt instr))\<rparr>, next_pc)
         else (s, next_pc))
      else if opcode instr = OPCODE_BEQ then
        (let taken = (regOf s (rs instr) = regOf s (rt instr)) in
         (countBranch s taken, if taken then pc s + 4 + push_bit 2 imm_extended else next_pc))
      else if opcode instr = OPCODE_BNE then
        (let taken = (regOf s (rs instr) \<noteq> regOf s (rt instr)) in
         (countBranch s taken, if taken then pc s + 4 + push_bit 2 imm_extended else next_pc))
      else (s, next_pc))"

definition executeJ :: "SimInstruction \<Rightarrow> MIPSSimulator \<Rightarrow> MIPSSimulator \<times> u32" where
  "executeJ instr s =
     (let next_pc = pc s + 4;
          target = (pc s AND 0xF0000000) OR push_bit 2 (jump_addr instr) in
      if opcode instr = OPCODE_J then (s, target)
      else if opcode instr = OPCODE_JAL then (s\<lparr>registers := (registers s)[31 := pc s + 8]\<rparr>, target)
      else (s, next_pc))"

definition executeInstruction :: "SimInstruction \<Rightarrow> MIPSSimulator \<Rightarrow> bool \<times> MIPSSimulator" where
  "executeInstruction instr s =
     (let (s', next_pc) =
            (if itype instr = ''R'' then executeR instr s
             else if itype instr = ''I'' then executeI instr s
             else if itype instr = ''J'' then executeJ instr s
             else (s, pc s + 4))
      in (True, s'\<lparr>pc := next_pc\<rparr>))"

subsection \<open>The pipelined path\<close>

definition detectHazards :: "MIPSSimulator \<Rightarrow> bool" where
  "detectHazards s =
     (let st = pipeline_stages s in
      if \<not> valid (st ! 1) \<or> \<not> valid (st ! 2) then False
      else
        (let id_instr = decodeInstruction (instruction (st ! 1));
             ex_instr = decodeInstruction (instruction (st ! 2)) in
         if itype ex_instr = ''R'' \<or> (itype ex_instr = ''I'' \<and> opcode ex_instr = OPCODE_LW) then
           (let dest_reg = (if itype ex_instr = ''R'' then rd ex_instr else rt ex_instr) in
            dest_reg \<noteq> 0 \<and> (dest_reg = rs id_instr \<or> dest_reg = rt id_instr))
         else False))"

text \<open>\<open>handleHazards\<close> marks the slots 1 to 4 as stalled and does nothing else.\<close>

definition markStall :: "SimStage list \<Rightarrow> nat \<Rightarrow> SimStage list" where
  "markStall st i = st[i := (st ! i)\<lparr>stall := True\<rparr>]"

definition handleHazards :: "MIPSSimulator \<Rightarrow> MIPSSimulator" where
  "handleHazards s =
     s\<lparr>pipeline_stages := markStall (markStall (markStall (markStall (pipeline_stages s) 1) 2) 3) 4\<rparr>"

text \<open>The loop \<open>for (i = 4; i >= 1; i--) stages[i] = stages[i - 1]\<close>.\<close>

definition shiftStages :: "SimStage list \<Rightarrow> SimStage list" where
  "shiftStages st =
     (let st4 = st[4 := st ! 3]; st3 = st4[3 := st4 ! 2]; st2 = st3[2 := st3 ! 1]
      in st2[1 := st2 ! 0])"

definition advancePipeline :: "MIPSSimulator \<Rightarrow> MIPSSimulator" where
  "advancePipeline s =
     (if detectHazards s then handleHazards s
      else
        (let st = shiftStages (pipeline_stages s) in
         if \<not> halted s \<and> isValidAddress s (pc s) then
           s\<lparr>pipeline_stages :=
                st[0 := (st ! 0)\<lparr>instruction := wordAt (memory s) (pc s), stage_pc := pc s,
                                valid := True\<rparr>],
             pc := pc s + 4\<rparr>
         else s\<lparr>pipeline_stages := st[0 := (st ! 0)\<lparr>valid := False\<rparr>]\<rparr>))"

subsection \<open>step and run\<close>

text \<open>The last two lines of \<open>step\<close>: register 0 is cleared and \<open>!halted\<close> returned.\<close>

definition finishStep :: "MIPSSimulator \<Rightarrow> bool \<times> MIPSSimulator" where
  "finishStep s = (\<not> halted s, s\<lparr>registers := (registers s)[0 := 0]\<rparr>)"

definition step :: "MIPSSimulator \<Rightarrow> bool \<times> MIPSSimulator" where
  "step s =
     (if halted s then (False, s)
      else if pipeline_enabled s then finishStep (advancePipeline s)
      else if \<not> isValidAddress s (pc s) then (False, s\<lparr>halted := True\<rparr>)
      else
        (let instr = decodeInstruction (wordAt (memory s) (pc s));
             (ok, s') = executeInstruction instr s
         in if \<not> ok then (False, s'\<lparr>halted := True\<rparr>) else finishStep s'))"

text \<open>\<open>n\<close> calls of \<open>step\<close>, the results dropped.\<close>

fun steps :: "nat \<Rightarrow> MIPSSimulator \<Rightarrow> MIPSSimulator" where
  "steps 0 s = s"
| "steps (Suc n) s = steps n (snd (step s))"

text \<open>
  \<open>run\<close>: \<open>while (!halted && step()) { if (step_mode) break; }\<close>. The loop need not end, so
  the model takes fuel, one unit for each test of the loop condition; \<open>None\<close> is fuel
  running out.
\<close>

fun run :: "nat \<Rightarrow> MIPSSimulator \<Rightarrow> MIPSSimulator option" where
  "run 0 s = None"
| "run (Suc n) s =
     (if halted s then Some s
      else (case step s of
              (r, s') \<Rightarrow> if \<not> r then Some s' else if step_mode s' then Some s' else run n s'))"

text \<open>A register as \<open>getRegister\<close> reads it once \<open>run\<close> has returned.\<close>

definition registerAfterRun :: "nat \<Rightarrow> MIPSSimulator \<Rightarrow> int \<Rightarrow> u32 option" where
  "registerAfterRun fuel s r =
     (case run fuel s of None \<Rightarrow> None | Some s' \<Rightarrow> Some (getRegister s' r))"

subsection \<open>Loading a program image\<close>

text \<open>
  \<open>std::stoul(line, nullptr, 16)\<close>, as \<open>strtoul\<close> reads: leading white space, an optional
  sign, an optional \<open>0x\<close> before a hexadecimal digit, then the longest run of hexadecimal
  digits; whatever follows is ignored. \<open>None\<close> stands for the exception: no digit at all
  (\<open>invalid_argument\<close>) or a value beyond 64 bits (\<open>out_of_range\<close>). A minus sign negates
  the value as an unsigned long.
\<close>

definition isspace :: "char \<Rightarrow> bool" where
  "isspace c \<longleftrightarrow> (of_char c :: nat) = 32 \<or> (9 \<le> (of_char c :: nat) \<and> (of_char c :: nat) \<le> 13)"

definition hexval :: "char \<Rightarrow> nat option" where
  "hexval c =
     (let n = (of_char c :: nat) in
      if 48 \<le> n \<and> n \<le> 57 then Some (n - 48)
      else if 97 \<le> n \<and> n \<le> 102 then Some (n - 87)
      else if 65 \<le> n \<and> n \<le> 70 then Some (n - 55)
      else None)"

fun hexdigits :: "string \<Rightarrow> nat list" where
  "hexdigits [] = []"
| "hexdigits (c # cs) = (case hexval c of None \<Rightarrow> [] | Some d \<Rightarrow> d # hexdigits cs)"

definition skipSign :: "string \<Rightarrow> bool \<times> string" where
  "skipSign cs =
     (case cs of
        [] \<Rightarrow> (False, [])
      | c # r \<Rightarrow> if c = CHR ''-'' then (True, r) else if c = CHR ''+'' then (False, r)
                 else (False, cs))"

definition skipPrefix :: "string \<Rightarrow> string" where
  "skipPrefix cs =
     (case cs of
        z # x # h # r \<Rightarrow>
          if z = CHR ''0'' \<and> (x = CHR ''x'' \<or> x = CHR ''X'') \<and> hexval h \<noteq> None
          then h # r else cs
      | _ \<Rightarrow> cs)"

definition stoul16 :: "string \<Rightarrow> nat option" where
  "stoul16 line =
     (let (neg, body) = skipSign (dropWhile isspace line);
          ds = hexdigits (skipPrefix body);
          v = foldl (\<lambda>acc d. 16 * acc + d) 0 ds
      in if ds = [] then None
         else if v \<ge> 2 ^ 64 then None
         else Some (if neg then (2 ^ 64 - v) mod 2 ^ 64 else v))"

text \<open>\<open>std::getline\<close> on the string stream: the text between newlines.\<close>

fun getlines :: "string \<Rightarrow> string \<Rightarrow> string list" where
  "getlines cur [] = (if cur = [] then [] else [cur])"
| "getlines cur (c # cs) =
     (if c = CHR 0x0A then cur # getlines [] cs else getlines (cur @ [c]) cs)"

definition skipped :: "string \<Rightarrow> bool" where
  "skipped line \<longleftrightarrow> line = [] \<or> hd line = CHR ''#''"

text \<open>
  The loop of \<open>loadProgramFromString\<close> over the lines. It writes each word into the memory
  as soon as it is parsed. The result is the memory and whether the loop ran to its end;
  \<open>False\<close> is the \<open>return false\<close> of the catch block.
\<close>

fun loadLines :: "string list \<Rightarrow> u32 \<Rightarrow> u8 list \<Rightarrow> bool \<times> u8 list" where
  "loadLines [] address mem = (True, mem)"
| "loadLines (line # rest) address mem =
     (if skipped line then loadLines rest address mem
      else (case stoul16 line of
              None \<Rightarrow> (False, mem)
            | Some v \<Rightarrow>
                if unat (address + 3) < length mem
                then loadLines rest (address + 4) (storeWord mem address (word_of_nat v))
                else loadLines rest address mem))"

definition loadProgramFromString :: "MIPSSimulator \<Rightarrow> string \<Rightarrow> bool \<times> MIPSSimulator" where
  "loadProgramFromString s program =
     (case loadLines (getlines [] program) 0 (memory s) of
        (ok, mem) \<Rightarrow> if ok then (True, reset (s\<lparr>memory := mem\<rparr>)) else (False, s\<lparr>memory := mem\<rparr>))"

text \<open>
  To say what a load leaves in memory, without the loop: the words of the lines of an image
  that are neither empty nor comments, and the four bytes of a word, the most significant
  first.
\<close>

definition imageWords :: "string list \<Rightarrow> u32 list" where
  "imageWords ls =
     List.map_filter (\<lambda>l. if skipped l then None else map_option word_of_nat (stoul16 l)) ls"

definition bigEndianBytes :: "u32 \<Rightarrow> u8 list" where
  "bigEndianBytes w = [ucast (drop_bit 24 w), ucast (drop_bit 16 w), ucast (drop_bit 8 w), ucast w]"

section \<open>Instruction, HazardDetection and Pipeline: the multi-class simulator\<close>

subsection \<open>Instruction\<close>

datatype InstructionType = R_TYPE | I_TYPE | J_TYPE

datatype InstructionFormat =
    ADD | SUB | AND_fmt | OR_fmt | NOR | SLT | SLL | SRL | SRA | SLLV | SRLV | SRAV
  | JR | JALR | MFHI | MFLO | MTHI | MTLO | MULT | MULTU | DIV | DIVU
  | ADDI | ADDIU | ANDI | ORI | XORI | SLTI | SLTIU
  | LW | LH | LB | LBU | LHU | SW | SH | SB
  | BEQ | BNE | BLEZ | BGTZ | BLTZ | BGEZ
  | LUI
  | J | JAL
  | NOP
  | UNKNOWN

record Instruction =
  machineCode :: u32
  in_type :: InstructionType
  format :: InstructionFormat
  in_rs :: u8
  in_rt :: u8
  in_rd :: u8
  in_shamt :: u8
  in_funct :: u8
  in_immediate :: u16
  signedImmediate :: u16
  jumpTarget :: u32
  in_opcode :: u8
  assembly :: string
  in_address :: u32

text \<open>The default constructor \<open>Instruction()\<close>.\<close>

definition Instruction0 :: Instruction where
  "Instruction0 =
     \<lparr>machineCode = 0, in_type = R_TYPE, format = NOP, in_rs = 0, in_rt = 0, in_rd = 0,
      in_shamt = 0, in_funct = 0, in_immediate = 0, signedImmediate = 0, jumpTarget = 0,
      in_opcode = 0, assembly = [], in_address = 0\<rparr>"

definition getInstructionFormat :: "u8 \<Rightarrow> u8 \<Rightarrow> InstructionFormat" where
  "getInstructionFormat opc fn =
     (if opc = 0 then
        (if fn = 0x20 then ADD else if fn = 0x22 then SUB else if fn = 0x24 then AND_fmt
         else if fn = 0x25 then OR_fmt else if fn = 0x27 then NOR else if fn = 0x2A then SLT
         else if fn = 0x00 then SLL else if fn = 0x02 then SRL else if fn = 0x03 then SRA
         else if fn = 0x08 then JR else if fn = 0x09 then JALR else UNKNOWN)
      else
        (if opc = 0x08 then ADDI else if opc = 0x0C then ANDI else if opc = 0x0D then ORI
         else if opc = 0x0E then XORI else if opc = 0x0A then SLTI else if opc = 0x23 then LW
         else if opc = 0x21 then LH else if opc = 0x20 then LB else if opc = 0x24 then LBU
         else if opc = 0x25 then LHU else if opc = 0x2B then SW else if opc = 0x29 then SH
         else if opc = 0x28 then SB else if opc = 0x04 then BEQ else if opc = 0x05 then BNE
         else if opc = 0x06 then BLEZ else if opc = 0x07 then BGTZ else if opc = 0x0F then LUI
         else if opc = 0x02 then J else if opc = 0x03 then JAL else UNKNOWN))"

text \<open>
  \<open>Instruction::decode\<close> sets the opcode and the fields of the instruction's type and leaves
  the others as they were. \<open>signedImmediate\<close> is an \<open>int16_t\<close>: the same sixteen bits, read
  signed where it is used.
\<close>

definition decode :: "Instruction \<Rightarrow> Instruction" where
  "decode i =
     (let m = machineCode i; opc = (ucast (drop_bit 26 m AND 0x3F) :: u8) in
      if opc = 0 then
        (let fn = (ucast (m AND 0x3F) :: u8) in
         i\<lparr>in_opcode := opc, in_type := R_TYPE,
           in_rs := ucast (drop_bit 21 m AND 0x1F), in_rt := ucast (drop_bit 16 m AND 0x1F),
           in_rd := ucast (drop_bit 11 m AND 0x1F), in_shamt := ucast (drop_bit 6 m AND 0x1F),
           in_funct := fn, format := getInstructionFormat opc fn\<rparr>)
      else if opc = 2 \<or> opc = 3 then
        i\<lparr>in_opcode := opc, in_type := J_TYPE, jumpTarget := m AND 0x3FFFFFF,
          format := (if opc = 2 then J else JAL)\<rparr>
      else
        i\<lparr>in_opcode := opc, in_type := I_TYPE,
          in_rs := ucast (drop_bit 21 m AND 0x1F), in_rt := ucast (drop_bit 16 m AND 0x1F),
          in_immediate := ucast (m AND 0xFFFF), signedImmediate := ucast (m AND 0xFFFF),
          format := getInstructionFormat opc 0\<rparr>)"

text \<open>
  The constructor \<open>Instruction(machineCode, address)\<close> initialises those two members and
  calls \<open>decode\<close>; the members \<open>decode\<close> does not set are indeterminate. The model takes
  them from its first argument.
\<close>

definition InstructionAt :: "Instruction \<Rightarrow> u32 \<Rightarrow> u32 \<Rightarrow> Instruction" where
  "InstructionAt junk m a = decode (junk\<lparr>machineCode := m, in_address := a\<rparr>)"

definition isBranch :: "Instruction \<Rightarrow> bool" where
  "isBranch i \<longleftrightarrow> format i = BEQ \<or> format i = BNE \<or> format i = BLEZ \<or> format i = BGTZ
     \<or> format i = BLTZ \<or> format i = BGEZ"

definition isJump :: "Instruction \<Rightarrow> bool" where
  "isJump i \<longleftrightarrow> format i = J \<or> format i = JAL \<or> format i = JR \<or> format i = JALR"

definition isLoad :: "Instruction \<Rightarrow> bool" where
  "isLoad i \<longleftrightarrow> format i = LW \<or> format i = LH \<or> format i = LB \<or> format i = LBU
     \<or> format i = LHU"

definition isStore :: "Instruction \<Rightarrow> bool" where
  "isStore i \<longleftrightarrow> format i = SW \<or> format i = SH \<or> format i = SB"

definition usesRS :: "Instruction \<Rightarrow> bool" where
  "usesRS i \<longleftrightarrow> in_type i = I_TYPE \<or> (in_type i = R_TYPE \<and> format i \<noteq> NOP)"

definition usesRT :: "Instruction \<Rightarrow> bool" where
  "usesRT i \<longleftrightarrow> (in_type i = R_TYPE \<and> format i \<noteq> JR)
     \<or> (in_type i = I_TYPE \<and> \<not> isLoad i \<and> format i \<noteq> LUI)"

definition writesRD :: "Instruction \<Rightarrow> bool" where
  "writesRD i \<longleftrightarrow> in_type i = R_TYPE \<and> format i \<noteq> JR \<and> format i \<noteq> NOP"

definition writesRT :: "Instruction \<Rightarrow> bool" where
  "writesRT i \<longleftrightarrow> in_type i = I_TYPE
     \<and> (isLoad i \<or> format i = ADDI \<or> format i = ANDI \<or> format i = ORI \<or> format i = LUI)"

subsection \<open>HazardDetection\<close>

datatype HazardType =
  NONE | DATA_HAZARD_RAW | DATA_HAZARD_WAR | DATA_HAZARD_WAW | CONTROL_HAZARD | STRUCTURAL_HAZARD

record ForwardingPath =
  enable :: bool
  sourceStage :: u8
  targetStage :: u8
  fwd_reg :: u8
  fwd_value :: u32

record HazardDetection =
  forwardingPaths :: "ForwardingPath list"
  dataHazards :: u64
  controlHazards :: u64
  structuralHazards :: u64
  forwardingEvents :: u64
  stallsInserted :: u64

definition newHazardDetection :: HazardDetection where
  "newHazardDetection =
     \<lparr>forwardingPaths = [], dataHazards = 0, controlHazards = 0, structuralHazards = 0,
      forwardingEvents = 0, stallsInserted = 0\<rparr>"

text \<open>
  \<open>detectDataHazard\<close> reads \<open>previous.valid\<close>, a member that the declaration of
  \<open>Instruction\<close> does not have. The hazard functions take it as the parameter \<open>isValid\<close>.
\<close>

definition detectDataHazard :: "(Instruction \<Rightarrow> bool) \<Rightarrow> Instruction \<Rightarrow> Instruction \<Rightarrow> bool" where
  "detectDataHazard isValid current previous =
     (if \<not> isValid previous then False
      else if writesRD previous \<or> writesRT previous then
        (let writeReg = (if writesRD previous then in_rd previous else in_rt previous) in
         if usesRS current \<and> in_rs current = writeReg then True
         else if usesRT current \<and> in_rt current = writeReg then True
         else False)
      else False)"

definition detectControlHazard :: "Instruction \<Rightarrow> bool" where
  "detectControlHazard i \<longleftrightarrow> isBranch i \<or> isJump i"

definition detectHazard ::
  "(Instruction \<Rightarrow> bool) \<Rightarrow> HazardDetection \<Rightarrow> Instruction \<Rightarrow> Instruction \<Rightarrow> Instruction
     \<Rightarrow> Instruction \<Rightarrow> HazardType \<times> HazardDetection" where
  "detectHazard isValid h current inEX inMEM inWB =
     (if detectDataHazard isValid current inEX \<or> detectDataHazard isValid current inMEM
         \<or> detectDataHazard isValid current inWB
      then (DATA_HAZARD_RAW, h\<lparr>dataHazards := dataHazards h + 1\<rparr>)
      else if detectControlHazard current
      then (CONTROL_HAZARD, h\<lparr>controlHazards := controlHazards h + 1\<rparr>)
      else (NONE, h))"

definition setupForwarding :: "HazardDetection \<Rightarrow> u8 \<Rightarrow> u8 \<Rightarrow> u32 \<Rightarrow> HazardDetection" where
  "setupForwarding h r src v =
     h\<lparr>forwardingPaths := forwardingPaths h @
          [\<lparr>enable = True, sourceStage = src, targetStage = 2, fwd_reg = r, fwd_value = v\<rparr>]\<rparr>"

fun forwardedFrom :: "ForwardingPath list \<Rightarrow> u8 \<Rightarrow> u32 \<Rightarrow> u32" where
  "forwardedFrom [] r defaultValue = defaultValue"
| "forwardedFrom (path # paths) r defaultValue =
     (if enable path \<and> fwd_reg path = r then fwd_value path
      else forwardedFrom paths r defaultValue)"

definition getForwardedValue :: "HazardDetection \<Rightarrow> u8 \<Rightarrow> u32 \<Rightarrow> u32" where
  "getForwardedValue h r defaultValue = forwardedFrom (forwardingPaths h) r defaultValue"

definition detectLoadUseHazard :: "Instruction \<Rightarrow> Instruction \<Rightarrow> bool" where
  "detectLoadUseHazard load use =
     (if \<not> isLoad load then False
      else if usesRS use \<and> in_rs use = in_rt load then True
      else if usesRT use \<and> in_rt use = in_rt load then True
      else False)"

definition shouldStall ::
  "HazardDetection \<Rightarrow> Instruction \<Rightarrow> Instruction \<Rightarrow> Instruction \<Rightarrow> bool \<times> HazardDetection" where
  "shouldStall h current inEX inMEM =
     (if detectLoadUseHazard inEX current then (True, h\<lparr>stallsInserted := stallsInserted h + 1\<rparr>)
      else (False, h))"

definition shouldFlush :: "Instruction \<Rightarrow> bool" where
  "shouldFlush branch \<longleftrightarrow> isBranch branch \<or> isJump branch"

subsection \<open>Pipeline\<close>

record PipelineStage =
  ps_valid :: bool
  ps_instruction :: Instruction
  ps_pc :: u32
  aluResult :: u32
  memoryData :: u32
  writeData :: u32
  writeReg :: u8
  regWrite :: bool
  memRead :: bool
  memWrite :: bool
  branch :: bool
  jump :: bool

record Pipeline =
  IF_ID :: PipelineStage
  ID_EX :: PipelineStage
  EX_MEM :: PipelineStage
  MEM_WB :: PipelineStage
  hazardUnit :: HazardDetection
  p_stall :: bool
  p_flush :: bool
  stallCycles :: u64
  flushCycles :: u64

text \<open>
  \<open>PipelineStage()\<close> clears the flags and default-constructs the instruction; the pc, the
  three data words and \<open>writeReg\<close> are indeterminate, and the model takes them from its
  argument.
\<close>

definition newPipelineStage :: "PipelineStage \<Rightarrow> PipelineStage" where
  "newPipelineStage junk =
     junk\<lparr>ps_valid := False, ps_instruction := Instruction0, regWrite := False,
          memRead := False, memWrite := False, branch := False, jump := False\<rparr>"

definition newPipeline :: "PipelineStage \<Rightarrow> Pipeline" where
  "newPipeline junk =
     \<lparr>IF_ID = newPipelineStage junk, ID_EX = newPipelineStage junk,
      EX_MEM = newPipelineStage junk, MEM_WB = newPipelineStage junk,
      hazardUnit = newHazardDetection, p_stall = False, p_flush = False,
      stallCycles = 0, flushCycles = 0\<rparr>"

text \<open>
  \<open>getMemoryWord\<close> and \<open>setMemoryWord\<close>, the same text in \<open>Pipeline\<close> and in \<open>MIPS\<close>. The
  guard \<open>address + 3 < memory.size()\<close> adds in 32 bits, so the sum wraps for the last
  three addresses; the four indices are \<open>address\<close> to \<open>address + 3\<close>, each computed in
  32 bits.
\<close>

definition inVector :: "u8 list \<Rightarrow> u32 \<Rightarrow> bool" where
  "inVector mem address \<longleftrightarrow>
     unat address < length mem \<and> unat (address + 1) < length mem
     \<and> unat (address + 2) < length mem \<and> unat (address + 3) < length mem"

definition getMemoryWord :: "u8 list \<Rightarrow> u32 \<Rightarrow> fault + u32" where
  "getMemoryWord mem address =
     (if unat (address + 3) < length mem then
        (if inVector mem address then Inr (wordAt mem address) else Inl OutOfBounds)
      else Inr 0)"

definition setMemoryWord :: "u8 list \<Rightarrow> u32 \<Rightarrow> u32 \<Rightarrow> fault + u8 list" where
  "setMemoryWord mem address v =
     (if unat (address + 3) < length mem then
        (if inVector mem address then Inr (storeWord mem address v) else Inl OutOfBounds)
      else Inr mem)"

definition performALU :: "u32 \<Rightarrow> u32 \<Rightarrow> InstructionFormat \<Rightarrow> u32" where
  "performALU op1 op2 fmt =
     (if fmt = ADD \<or> fmt = ADDI \<or> fmt = LW \<or> fmt = SW then op1 + op2
      else if fmt = SUB then op1 - op2
      else if fmt = AND_fmt \<or> fmt = ANDI then op1 AND op2
      else if fmt = OR_fmt \<or> fmt = ORI then op1 OR op2
      else if fmt = NOR then NOT (op1 OR op2)
      else if fmt = SLT \<or> fmt = SLTI then (if sint op1 < sint op2 then 1 else 0)
      else 0)"

definition readReg :: "u32 list \<Rightarrow> u8 \<Rightarrow> fault + u32" where
  "readReg regs r = (if unat r < length regs then Inr (regs ! unat r) else Inl OutOfBounds)"

definition stallPipeline :: "Pipeline \<Rightarrow> Pipeline" where
  "stallPipeline p = p\<lparr>p_stall := True\<rparr>"

definition flushPipeline :: "Pipeline \<Rightarrow> Pipeline" where
  "flushPipeline p =
     p\<lparr>IF_ID := (IF_ID p)\<lparr>ps_valid := False\<rparr>, ID_EX := (ID_EX p)\<lparr>ps_valid := False\<rparr>,
       p_flush := True\<rparr>"

definition executeIF :: "Pipeline \<Rightarrow> Instruction \<Rightarrow> u32 \<Rightarrow> Pipeline" where
  "executeIF p i a =
     (if \<not> p_stall p
      then p\<lparr>IF_ID := (IF_ID p)\<lparr>ps_valid := True, ps_instruction := i, ps_pc := a\<rparr>\<rparr>
      else p)"

definition executeID :: "Pipeline \<Rightarrow> Pipeline" where
  "executeID p =
     (if p_flush p then p\<lparr>ID_EX := (ID_EX p)\<lparr>ps_valid := False\<rparr>\<rparr>
      else if ps_valid (IF_ID p) then
        (let i = ps_instruction (IF_ID p);
             st = (IF_ID p)\<lparr>ps_valid := True, regWrite := writesRD i \<or> writesRT i,
                    memRead := isLoad i, memWrite := isStore i, branch := isBranch i,
                    jump := isJump i\<rparr>;
             st' = (if writesRD i then st\<lparr>writeReg := in_rd i\<rparr>
                    else if writesRT i then st\<lparr>writeReg := in_rt i\<rparr> else st)
         in p\<lparr>ID_EX := st', IF_ID := (IF_ID p)\<lparr>ps_valid := False\<rparr>\<rparr>)
      else p)"

text \<open>
  \<open>executeEX\<close> and \<open>executeMEM\<close> read \<open>registers[...]\<close>, a name that \<open>Pipeline\<close> does not
  declare; the model passes them the register file that \<open>tick\<close> receives. The second
  operand of an I-type instruction is its sign-extended immediate, also for a branch.
\<close>

definition branchTaken :: "InstructionFormat \<Rightarrow> u32 \<Rightarrow> u32 \<Rightarrow> bool" where
  "branchTaken fmt op1 op2 =
     (if fmt = BEQ then op1 = op2 else if fmt = BNE then op1 \<noteq> op2 else False)"

definition operandsEX :: "Pipeline \<Rightarrow> u32 list \<Rightarrow> fault + u32 \<times> u32" where
  "operandsEX p regs =
     (let i = ps_instruction (ID_EX p) in
      case readReg regs (in_rs i) of
        Inl e \<Rightarrow> Inl e
      | Inr r1 \<Rightarrow>
         (case (if in_type i = I_TYPE then Inr (scast (signedImmediate i))
                else readReg regs (in_rt i)) of
            Inl e \<Rightarrow> Inl e
          | Inr r2 \<Rightarrow>
              Inr (getForwardedValue (hazardUnit p) (in_rs i) r1,
                   if in_type i = R_TYPE
                   then getForwardedValue (hazardUnit p) (in_rt i) r2 else r2)))"

definition executeEX :: "Pipeline \<Rightarrow> u32 list \<Rightarrow> fault + Pipeline" where
  "executeEX p regs =
     (if ps_valid (ID_EX p) then
        (let i = ps_instruction (ID_EX p) in
         case operandsEX p regs of
           Inl e \<Rightarrow> Inl e
         | Inr (op1, op2) \<Rightarrow>
            (let ex = (ID_EX p)\<lparr>ps_valid := True, aluResult := performALU op1 op2 (format i)\<rparr>;
                 p1 = p\<lparr>EX_MEM := ex\<rparr>;
                 p2 = (if isBranch i \<and> branchTaken (format i) op1 op2
                       then p1\<lparr>p_flush := True\<rparr> else p1)
             in Inr (p2\<lparr>ID_EX := (ID_EX p2)\<lparr>ps_valid := False\<rparr>\<rparr>)))
      else Inr p)"

definition executeMEM :: "Pipeline \<Rightarrow> u32 list \<Rightarrow> u8 list \<Rightarrow> fault + Pipeline \<times> u8 list" where
  "executeMEM p regs mem =
     (if ps_valid (EX_MEM p) then
        (let wb = (EX_MEM p)\<lparr>ps_valid := True\<rparr>;
             i = ps_instruction wb;
             done = (\<lambda>wb' mem'. Inr (p\<lparr>MEM_WB := wb', EX_MEM := (EX_MEM p)\<lparr>ps_valid := False\<rparr>\<rparr>, mem'))
         in if isLoad i then
              (case getMemoryWord mem (aluResult (EX_MEM p)) of
                 Inl e \<Rightarrow> Inl e
               | Inr w \<Rightarrow> done (wb\<lparr>memoryData := w, writeData := w\<rparr>) mem)
            else if isStore i then
              (case readReg regs (in_rt i) of
                 Inl e \<Rightarrow> Inl e
               | Inr d \<Rightarrow>
                  (case setMemoryWord mem (aluResult (EX_MEM p)) d of
                     Inl e \<Rightarrow> Inl e
                   | Inr mem' \<Rightarrow> done wb mem'))
            else done (wb\<lparr>writeData := aluResult (EX_MEM p)\<rparr>) mem)
      else Inr (p, mem))"

definition executeWB :: "Pipeline \<Rightarrow> u32 list \<Rightarrow> fault + Pipeline \<times> u32 list" where
  "executeWB p regs =
     (let wb = MEM_WB p in
      if ps_valid wb \<and> regWrite wb then
        (if writeReg wb \<noteq> 0 then
           (if unat (writeReg wb) < length regs then
              Inr (p\<lparr>hazardUnit := setupForwarding (hazardUnit p) (writeReg wb) 4 (writeData wb),
                     MEM_WB := wb\<lparr>ps_valid := False\<rparr>\<rparr>,
                   regs[unat (writeReg wb) := writeData wb])
            else Inl OutOfBounds)
         else Inr (p\<lparr>MEM_WB := wb\<lparr>ps_valid := False\<rparr>\<rparr>, regs))
      else Inr (p, regs))"

text \<open>The five stages in the order of \<open>tick\<close>, then the two flags cleared.\<close>

definition runStages ::
  "Pipeline \<Rightarrow> Instruction \<Rightarrow> u32 \<Rightarrow> u32 list \<Rightarrow> u8 list \<Rightarrow> fault + Pipeline \<times> u32 list \<times> u8 list" where
  "runStages p fetched a regs mem =
     (case executeWB p regs of
        Inl e \<Rightarrow> Inl e
      | Inr (p1, regs1) \<Rightarrow>
         (case executeMEM p1 regs1 mem of
            Inl e \<Rightarrow> Inl e
          | Inr (p2, mem2) \<Rightarrow>
             (case executeEX p2 regs1 of
                Inl e \<Rightarrow> Inl e
              | Inr p3 \<Rightarrow>
                 Inr ((executeIF (executeID p3) fetched a)\<lparr>p_stall := False, p_flush := False\<rparr>,
                      regs1, mem2))))"

definition tick ::
  "(Instruction \<Rightarrow> bool) \<Rightarrow> Pipeline \<Rightarrow> Instruction \<Rightarrow> u32 \<Rightarrow> u32 list \<Rightarrow> u8 list
     \<Rightarrow> fault + Pipeline \<times> u32 list \<times> u8 list" where
  "tick isValid p fetched a regs mem =
     (let (hazard, h1) = detectHazard isValid (hazardUnit p) fetched (ps_instruction (ID_EX p))
                           (ps_instruction (EX_MEM p)) (ps_instruction (MEM_WB p));
          p1 = p\<lparr>hazardUnit := h1\<rparr>;
          (stalls, h2) = (if hazard = DATA_HAZARD_RAW
                          then shouldStall h1 fetched (ps_instruction (ID_EX p1))
                                 (ps_instruction (EX_MEM p1))
                          else (False, h1));
          p2 = p1\<lparr>hazardUnit := h2\<rparr>
      in if stalls then Inr ((stallPipeline p2)\<lparr>stallCycles := stallCycles p2 + 1\<rparr>, regs, mem)
         else
           (let p3 = (if hazard = CONTROL_HAZARD \<and> shouldFlush (ps_instruction (ID_EX p2))
                      then (flushPipeline p2)\<lparr>flushCycles := flushCycles p2 + 1\<rparr> else p2)
            in runStages p3 fetched a regs mem))"

subsection \<open>MIPS\<close>

text \<open>The class also declares a member \<open>branchPredictor\<close>, which no function of it uses.\<close>

record MIPS =
  m_registers :: "u32 list"
  m_pc :: u32
  hi :: u32
  lo :: u32
  m_memory :: "u8 list"
  pipeline :: Pipeline
  instructions :: "Instruction list"
  stepMode :: bool
  pipelineEnabled :: bool
  cycleCount :: u64
  instructionCount :: u64

text \<open>
  \<open>executeSingleCycle\<close>. A format without a case only advances the pc. The writes go to
  the register the instruction names, register 0 included; the last two statements clear
  register 0 and store the pc.
\<close>

definition writeRegister :: "MIPS \<Rightarrow> u8 \<Rightarrow> u32 \<Rightarrow> MIPS" where
  "writeRegister m r v = m\<lparr>m_registers := (m_registers m)[unat r := v]\<rparr>"

definition R :: "MIPS \<Rightarrow> u8 \<Rightarrow> u32" where
  "R m r = m_registers m ! unat r"

definition executeFormat :: "Instruction \<Rightarrow> MIPS \<Rightarrow> fault + MIPS \<times> u32" where
  "executeFormat i m =
     (let nextPC = m_pc m + 4;
          a = R m (in_rs i); b = R m (in_rt i);
          simm = (scast (signedImmediate i) :: u32);
          target = (m_pc m AND 0xF0000000) OR push_bit 2 (jumpTarget i)
      in case format i of
           ADD \<Rightarrow> Inr (writeRegister m (in_rd i) (a + b), nextPC)
         | SUB \<Rightarrow> Inr (writeRegister m (in_rd i) (a - b), nextPC)
         | AND_fmt \<Rightarrow> Inr (writeRegister m (in_rd i) (a AND b), nextPC)
         | OR_fmt \<Rightarrow> Inr (writeRegister m (in_rd i) (a OR b), nextPC)
         | NOR \<Rightarrow> Inr (writeRegister m (in_rd i) (NOT (a OR b)), nextPC)
         | SLT \<Rightarrow> Inr (writeRegister m (in_rd i) (if sint a < sint b then 1 else 0), nextPC)
         | ADDI \<Rightarrow> Inr (writeRegister m (in_rt i) (a + simm), nextPC)
         | ANDI \<Rightarrow> Inr (writeRegister m (in_rt i) (a AND ucast (in_immediate i)), nextPC)
         | ORI \<Rightarrow> Inr (writeRegister m (in_rt i) (a OR ucast (in_immediate i)), nextPC)
         | LW \<Rightarrow> (case getMemoryWord (m_memory m) (a + simm) of
                    Inl e \<Rightarrow> Inl e
                  | Inr w \<Rightarrow> Inr (writeRegister m (in_rt i) w, nextPC))
         | SW \<Rightarrow> (case setMemoryWord (m_memory m) (a + simm) b of
                    Inl e \<Rightarrow> Inl e
                  | Inr mem' \<Rightarrow> Inr (m\<lparr>m_memory := mem'\<rparr>, nextPC))
         | BEQ \<Rightarrow> Inr (m, if a = b then m_pc m + 4 + push_bit 2 simm else nextPC)
         | BNE \<Rightarrow> Inr (m, if a \<noteq> b then m_pc m + 4 + push_bit 2 simm else nextPC)
         | J \<Rightarrow> Inr (m, target)
         | JAL \<Rightarrow> Inr (m\<lparr>m_registers := (m_registers m)[31 := m_pc m + 8]\<rparr>, target)
         | JR \<Rightarrow> Inr (m, a)
         | _ \<Rightarrow> Inr (m, nextPC))"

definition executeSingleCycle :: "Instruction \<Rightarrow> MIPS \<Rightarrow> fault + MIPS" where
  "executeSingleCycle i m =
     (case executeFormat i m of
        Inl e \<Rightarrow> Inl e
      | Inr (m', nextPC) \<Rightarrow> Inr (m'\<lparr>m_registers := (m_registers m')[0 := 0], m_pc := nextPC\<rparr>))"

text \<open>
  \<open>MIPS::step\<close>. The end of the program is compared in \<open>size_t\<close>. \<open>tick\<close> receives the pc
  by value and the registers and the memory by reference. The arguments \<open>isValid\<close> and
  \<open>junk\<close> are those of \<open>detectDataHazard\<close> and of the constructor of \<open>Instruction\<close>.
\<close>

definition MIPS_step :: "(Instruction \<Rightarrow> bool) \<Rightarrow> Instruction \<Rightarrow> MIPS \<Rightarrow> fault + MIPS" where
  "MIPS_step isValid junk m =
     (if unat (m_pc m) \<ge> (0x400000 + length (instructions m) * 4) mod 2 ^ 64 then Inr m
      else
        (case getMemoryWord (m_memory m) (m_pc m) of
           Inl e \<Rightarrow> Inl e
         | Inr w \<Rightarrow>
            (let i = InstructionAt junk w (m_pc m);
                 count = (\<lambda>m'. m'\<lparr>cycleCount := cycleCount m' + 1,
                                   instructionCount :=
                                     (if format i \<noteq> NOP then instructionCount m' + 1
                                      else instructionCount m')\<rparr>)
             in if pipelineEnabled m then
                  (case tick isValid (pipeline m) i (m_pc m) (m_registers m) (m_memory m) of
                     Inl e \<Rightarrow> Inl e
                   | Inr (p', regs', mem') \<Rightarrow>
                       Inr (count (m\<lparr>pipeline := p', m_registers := regs', m_memory := mem'\<rparr>)))
                else
                  (case executeSingleCycle i m of
                     Inl e \<Rightarrow> Inl e
                   | Inr m' \<Rightarrow> Inr (count m')))))"

text \<open>
  The constructor \<open>MIPS()\<close>: 32 registers, one megabyte of memory, the pc at 0x400000, the
  stack and global pointers preset, the pipeline enabled. The argument stands for the
  indeterminate members of the pipeline's stages.
\<close>

definition newMIPS :: "PipelineStage \<Rightarrow> MIPS" where
  "newMIPS junk =
     \<lparr>m_registers = (replicate 32 0)[29 := 0x7fffeffc, 28 := 0x10008000], m_pc = 0x400000,
      hi = 0, lo = 0, m_memory = replicate 0x100000 0, pipeline = newPipeline junk,
      instructions = [], stepMode = False, pipelineEnabled = True, cycleCount = 0,
      instructionCount = 0\<rparr>"

text \<open>A stage whose indeterminate members are all zero, for the examples.\<close>

definition zeroStage :: PipelineStage where
  "zeroStage =
     \<lparr>ps_valid = False, ps_instruction = Instruction0, ps_pc = 0, aluResult = 0,
      memoryData = 0, writeData = 0, writeReg = 0, regWrite = False, memRead = False,
      memWrite = False, branch = False, jump = False\<rparr>"

text \<open>
  For the examples: \<open>tick\<close> called once for each word of a list, the word decoded at its
  address, the registers and the memory passed from one call to the next.
\<close>

fun feed ::
  "(Instruction \<Rightarrow> bool) \<Rightarrow> Pipeline \<Rightarrow> (u32 \<times> u32) list \<Rightarrow> u32 list \<Rightarrow> u8 list
     \<Rightarrow> fault + Pipeline \<times> u32 list \<times> u8 list" where
  "feed isValid p [] regs mem = Inr (p, regs, mem)"
| "feed isValid p ((w, a) # ws) regs mem =
     (case tick isValid p (InstructionAt Instruction0 w a) a regs mem of
        Inl e \<Rightarrow> Inl e
      | Inr (p', regs', mem') \<Rightarrow> feed isValid p' ws regs' mem')"

text \<open>The valid flag and the instruction word of the latches IF/ID, ID/EX and EX/MEM.\<close>

definition latches :: "Pipeline \<Rightarrow> (bool \<times> u32) \<times> (bool \<times> u32) \<times> (bool \<times> u32)" where
  "latches p =
     ((ps_valid (IF_ID p), machineCode (ps_instruction (IF_ID p))),
      (ps_valid (ID_EX p), machineCode (ps_instruction (ID_EX p))),
      (ps_valid (EX_MEM p), machineCode (ps_instruction (EX_MEM p))))"

text \<open>
  The latches of a fresh pipeline after the words \<open>ws\<close> have been fed to it over one
  megabyte of zero memory.
\<close>

definition latchesAfter ::
  "(u32 \<times> u32) list \<Rightarrow> u32 list \<Rightarrow> ((bool \<times> u32) \<times> (bool \<times> u32) \<times> (bool \<times> u32)) option" where
  "latchesAfter ws regs =
     (case feed (\<lambda>i. True) (newPipeline zeroStage) ws regs (replicate 0x100000 0) of
        Inl e \<Rightarrow> None
      | Inr (p, regs', mem') \<Rightarrow> Some (latches p))"

text \<open>
  The pc that \<open>executeSingleCycle\<close> leaves when it executes the word \<open>w\<close> at 0x400000 over
  the registers \<open>regs\<close>.
\<close>

definition pcAfterSingleCycle :: "u32 \<Rightarrow> u32 list \<Rightarrow> u32 option" where
  "pcAfterSingleCycle w regs =
     (case executeSingleCycle (InstructionAt Instruction0 w 0x400000)
             ((newMIPS zeroStage)\<lparr>m_registers := regs\<rparr>) of
        Inl e \<Rightarrow> None
      | Inr m' \<Rightarrow> Some (m_pc m'))"

section \<open>The predictor classes of BranchPredictor.hpp\<close>

datatype PredictorType =
    STATIC_NOT_TAKEN | STATIC_TAKEN | STATIC_BTFN | BIMODAL_1BIT | BIMODAL_2BIT | GSHARE
  | LOCAL_HISTORY | TOURNAMENT

text \<open>
  The three counters are \<open>uint64_t\<close>; \<open>accuracy\<close> is a \<open>double\<close>.
\<close>

record BranchStats =
  totalBranches :: u64
  correctPredictions :: u64
  mispredictions :: u64
  accuracy :: double

definition BranchStats0 :: BranchStats where
  "BranchStats0 = \<lparr>totalBranches = 0, correctPredictions = 0, mispredictions = 0, accuracy = D0\<rparr>"

text \<open>The base class: every predictor has a type tag and its statistics.\<close>

record BranchPredictor =
  ptype :: PredictorType
  stats :: BranchStats

record StaticPredictor = BranchPredictor +
  prediction :: bool

type_synonym BTFNPredictor = BranchPredictor

record BimodalPredictor = BranchPredictor +
  table :: "u8 list"
  indexBits :: u32
  tableSize :: u32
  twoBit :: bool

record GsharePredictor = BranchPredictor +
  g_table :: "u8 list"
  globalHistory :: u32
  historyBits :: u32
  g_indexBits :: u32
  g_tableSize :: u32

record LocalHistoryPredictor = BranchPredictor +
  localHistoryTable :: "u32 list"
  patternHistoryTable :: "u8 list"
  localHistoryBits :: u32
  patternHistoryBits :: u32
  localTableSize :: u32
  patternTableSize :: u32

text \<open>
  The tournament predictor owns its two sub-predictors, which its constructor always
  builds as a gshare and a local-history predictor.
\<close>

record TournamentPredictor = BranchPredictor +
  globalPredictor :: GsharePredictor
  localPredictor :: LocalHistoryPredictor
  choiceTable :: "u8 list"
  choiceTableSize :: u32

text \<open>
  \<open>1 << bits\<close> is computed on \<open>int\<close> in the source and is defined for \<open>bits\<close> up to 30;
  the model shifts a 32-bit word.
\<close>

definition shl1 :: "u32 \<Rightarrow> u32" where
  "shl1 bits = push_bit (unat bits) 1"

text \<open>
  The statements at the head of every \<open>update\<close>, in three parts: the total is counted,
  then \<open>predict\<close> is called, then the outcome is compared and the accuracy recomputed.
\<close>

definition countBranchTotal :: "BranchStats \<Rightarrow> BranchStats" where
  "countBranchTotal st = st\<lparr>totalBranches := totalBranches st + 1\<rparr>"

definition countOutcome :: "BranchStats \<Rightarrow> bool \<Rightarrow> BranchStats" where
  "countOutcome st correct =
     (let st1 = (if correct then st\<lparr>correctPredictions := correctPredictions st + 1\<rparr>
                 else st\<lparr>mispredictions := mispredictions st + 1\<rparr>)
      in st1\<lparr>accuracy := Dquot (unat (correctPredictions st1)) (unat (totalBranches st1))\<rparr>)"

text \<open>The two-bit counter step that the bimodal, gshare, local and tournament updates share.\<close>

definition counterStep :: "u8 \<Rightarrow> bool \<Rightarrow> u8" where
  "counterStep c taken =
     (if taken \<and> c < 3 then c + 1 else if \<not> taken \<and> c > 0 then c - 1 else c)"

subsection \<open>StaticPredictor and BTFNPredictor\<close>

definition newStaticPredictor :: "PredictorType \<Rightarrow> bool \<Rightarrow> StaticPredictor" where
  "newStaticPredictor t pred = \<lparr>ptype = t, stats = BranchStats0, prediction = pred\<rparr>"

definition Static_predict :: "StaticPredictor \<Rightarrow> u32 \<Rightarrow> u32 \<Rightarrow> bool \<times> StaticPredictor" where
  "Static_predict p a target = (prediction p, p)"

definition Static_update :: "StaticPredictor \<Rightarrow> u32 \<Rightarrow> bool \<Rightarrow> u32 \<Rightarrow> StaticPredictor" where
  "Static_update p a taken target =
     (let p1 = p\<lparr>stats := countBranchTotal (stats p)\<rparr>;
          (predicted, p2) = Static_predict p1 a target
      in p2\<lparr>stats := countOutcome (stats p2) (predicted = taken)\<rparr>)"

definition Static_reset :: "StaticPredictor \<Rightarrow> StaticPredictor" where
  "Static_reset p = p\<lparr>stats := BranchStats0\<rparr>"

definition newBTFNPredictor :: BTFNPredictor where
  "newBTFNPredictor = \<lparr>ptype = STATIC_BTFN, stats = BranchStats0\<rparr>"

definition BTFN_predict :: "BTFNPredictor \<Rightarrow> u32 \<Rightarrow> u32 \<Rightarrow> bool \<times> BTFNPredictor" where
  "BTFN_predict p a target = (target < a, p)"

definition BTFN_update :: "BTFNPredictor \<Rightarrow> u32 \<Rightarrow> bool \<Rightarrow> u32 \<Rightarrow> BTFNPredictor" where
  "BTFN_update p a taken target =
     (let p1 = p\<lparr>stats := countBranchTotal (stats p)\<rparr>;
          (predicted, p2) = BTFN_predict p1 a target
      in p2\<lparr>stats := countOutcome (stats p2) (predicted = taken)\<rparr>)"

definition BTFN_reset :: "BTFNPredictor \<Rightarrow> BTFNPredictor" where
  "BTFN_reset p = p\<lparr>stats := BranchStats0\<rparr>"

subsection \<open>BimodalPredictor\<close>

definition newBimodalPredictor :: "PredictorType \<Rightarrow> u32 \<Rightarrow> BimodalPredictor" where
  "newBimodalPredictor t bits =
     \<lparr>ptype = t, stats = BranchStats0,
      table = replicate (unat (shl1 bits)) (if t = BIMODAL_2BIT then 1 else 0),
      indexBits = bits, tableSize = shl1 bits, twoBit = (t = BIMODAL_2BIT)\<rparr>"

definition Bimodal_getIndex :: "BimodalPredictor \<Rightarrow> u32 \<Rightarrow> u32" where
  "Bimodal_getIndex p a = drop_bit 2 a AND (shl1 (indexBits p) - 1)"

definition Bimodal_predict :: "BimodalPredictor \<Rightarrow> u32 \<Rightarrow> u32 \<Rightarrow> bool \<times> BimodalPredictor" where
  "Bimodal_predict p a target =
     (let index = unat (Bimodal_getIndex p a) in
      if twoBit p then (table p ! index \<ge> 2, p) else (table p ! index = 1, p))"

definition Bimodal_update :: "BimodalPredictor \<Rightarrow> u32 \<Rightarrow> bool \<Rightarrow> u32 \<Rightarrow> BimodalPredictor" where
  "Bimodal_update p a taken target =
     (let index = unat (Bimodal_getIndex p a);
          p1 = p\<lparr>stats := countBranchTotal (stats p)\<rparr>;
          (predicted, p2) = Bimodal_predict p1 a target;
          p3 = p2\<lparr>stats := countOutcome (stats p2) (predicted = taken)\<rparr>
      in if twoBit p3 then p3\<lparr>table := (table p3)[index := counterStep (table p3 ! index) taken]\<rparr>
         else p3\<lparr>table := (table p3)[index := (if taken then 1 else 0)]\<rparr>)"

definition Bimodal_reset :: "BimodalPredictor \<Rightarrow> BimodalPredictor" where
  "Bimodal_reset p =
     p\<lparr>stats := BranchStats0,
       table := replicate (length (table p)) (if twoBit p then 1 else 0)\<rparr>"

subsection \<open>GsharePredictor\<close>

definition newGsharePredictor :: "u32 \<Rightarrow> u32 \<Rightarrow> GsharePredictor" where
  "newGsharePredictor histBits idxBits =
     \<lparr>ptype = GSHARE, stats = BranchStats0,
      g_table = replicate (unat (shl1 idxBits)) 1, globalHistory = 0,
      historyBits = histBits, g_indexBits = idxBits, g_tableSize = shl1 idxBits\<rparr>"

definition Gshare_getIndex :: "GsharePredictor \<Rightarrow> u32 \<Rightarrow> u32" where
  "Gshare_getIndex p a =
     (let pcBits = drop_bit 2 a AND (shl1 (g_indexBits p) - 1);
          historyMask = shl1 (min (historyBits p) (g_indexBits p)) - 1
      in pcBits XOR (globalHistory p AND historyMask))"

definition Gshare_predict :: "GsharePredictor \<Rightarrow> u32 \<Rightarrow> u32 \<Rightarrow> bool \<times> GsharePredictor" where
  "Gshare_predict p a target = (g_table p ! unat (Gshare_getIndex p a) \<ge> 2, p)"

definition Gshare_update :: "GsharePredictor \<Rightarrow> u32 \<Rightarrow> bool \<Rightarrow> u32 \<Rightarrow> GsharePredictor" where
  "Gshare_update p a taken target =
     (let index = unat (Gshare_getIndex p a);
          p1 = p\<lparr>stats := countBranchTotal (stats p)\<rparr>;
          (predicted, p2) = Gshare_predict p1 a target;
          p3 = p2\<lparr>stats := countOutcome (stats p2) (predicted = taken)\<rparr>;
          p4 = p3\<lparr>g_table := (g_table p3)[index := counterStep (g_table p3 ! index) taken]\<rparr>
      in p4\<lparr>globalHistory :=
              (push_bit 1 (globalHistory p4) OR (if taken then 1 else 0))
                AND (shl1 (historyBits p4) - 1)\<rparr>)"

definition Gshare_reset :: "GsharePredictor \<Rightarrow> GsharePredictor" where
  "Gshare_reset p =
     p\<lparr>stats := BranchStats0, globalHistory := 0,
       g_table := replicate (length (g_table p)) 1\<rparr>"

subsection \<open>LocalHistoryPredictor\<close>

definition newLocalHistoryPredictor :: "u32 \<Rightarrow> u32 \<Rightarrow> LocalHistoryPredictor" where
  "newLocalHistoryPredictor localBits patternBits =
     \<lparr>ptype = LOCAL_HISTORY, stats = BranchStats0,
      localHistoryTable = replicate (unat (shl1 localBits)) 0,
      patternHistoryTable = replicate (unat (shl1 patternBits)) 1,
      localHistoryBits = localBits, patternHistoryBits = patternBits,
      localTableSize = shl1 localBits, patternTableSize = shl1 patternBits\<rparr>"

definition getLocalIndex :: "LocalHistoryPredictor \<Rightarrow> u32 \<Rightarrow> u32" where
  "getLocalIndex p a = drop_bit 2 a AND (shl1 (localHistoryBits p) - 1)"

definition getPatternIndex :: "LocalHistoryPredictor \<Rightarrow> u32 \<Rightarrow> u32" where
  "getPatternIndex p localHistory = localHistory AND (shl1 (patternHistoryBits p) - 1)"

definition Local_predict ::
  "LocalHistoryPredictor \<Rightarrow> u32 \<Rightarrow> u32 \<Rightarrow> bool \<times> LocalHistoryPredictor" where
  "Local_predict p a target =
     (let localHistory = localHistoryTable p ! unat (getLocalIndex p a);
          patternIndex = unat (getPatternIndex p localHistory)
      in (patternHistoryTable p ! patternIndex \<ge> 2, p))"

definition Local_update ::
  "LocalHistoryPredictor \<Rightarrow> u32 \<Rightarrow> bool \<Rightarrow> u32 \<Rightarrow> LocalHistoryPredictor" where
  "Local_update p a taken target =
     (let localIndex = unat (getLocalIndex p a);
          localHistory = localHistoryTable p ! localIndex;
          patternIndex = unat (getPatternIndex p localHistory);
          p1 = p\<lparr>stats := countBranchTotal (stats p)\<rparr>;
          (predicted, p2) = Local_predict p1 a target;
          p3 = p2\<lparr>stats := countOutcome (stats p2) (predicted = taken)\<rparr>;
          p4 = p3\<lparr>patternHistoryTable :=
                  (patternHistoryTable p3)
                    [patternIndex := counterStep (patternHistoryTable p3 ! patternIndex) taken]\<rparr>
      in p4\<lparr>localHistoryTable :=
              (localHistoryTable p4)
                [localIndex := (push_bit 1 localHistory OR (if taken then 1 else 0))
                                 AND (shl1 (patternHistoryBits p4) - 1)]\<rparr>)"

definition Local_reset :: "LocalHistoryPredictor \<Rightarrow> LocalHistoryPredictor" where
  "Local_reset p =
     p\<lparr>stats := BranchStats0,
       localHistoryTable := replicate (length (localHistoryTable p)) 0,
       patternHistoryTable := replicate (length (patternHistoryTable p)) 1\<rparr>"

subsection \<open>TournamentPredictor\<close>

definition newTournamentPredictor :: "u32 \<Rightarrow> TournamentPredictor" where
  "newTournamentPredictor choiceBits =
     \<lparr>ptype = TOURNAMENT, stats = BranchStats0,
      globalPredictor = newGsharePredictor 12 12,
      localPredictor = newLocalHistoryPredictor 10 10,
      choiceTable = replicate (unat (shl1 choiceBits)) 1,
      choiceTableSize = shl1 choiceBits\<rparr>"

definition getChoiceIndex :: "TournamentPredictor \<Rightarrow> u32 \<Rightarrow> u32" where
  "getChoiceIndex p a = drop_bit 2 a AND (choiceTableSize p - 1)"

definition Tournament_predict ::
  "TournamentPredictor \<Rightarrow> u32 \<Rightarrow> u32 \<Rightarrow> bool \<times> TournamentPredictor" where
  "Tournament_predict p a target =
     (if choiceTable p ! unat (getChoiceIndex p a) \<ge> 2 then
        (let (r, g) = Gshare_predict (globalPredictor p) a target in (r, p\<lparr>globalPredictor := g\<rparr>))
      else
        (let (r, l) = Local_predict (localPredictor p) a target in (r, p\<lparr>localPredictor := l\<rparr>)))"

definition Tournament_update ::
  "TournamentPredictor \<Rightarrow> u32 \<Rightarrow> bool \<Rightarrow> u32 \<Rightarrow> TournamentPredictor" where
  "Tournament_update p a taken target =
     (let choiceIndex = unat (getChoiceIndex p a);
          (globalPrediction, g) = Gshare_predict (globalPredictor p) a target;
          p1 = p\<lparr>globalPredictor := g\<rparr>;
          (localPrediction, l) = Local_predict (localPredictor p1) a target;
          p2 = p1\<lparr>localPredictor := l\<rparr>;
          (chosenPrediction, p3) = Tournament_predict p2 a target;
          p4 = p3\<lparr>stats := countOutcome (countBranchTotal (stats p3)) (chosenPrediction = taken)\<rparr>;
          c = choiceTable p4 ! choiceIndex;
          p5 = (if globalPrediction = taken \<and> localPrediction \<noteq> taken then
                  (if c < 3 then p4\<lparr>choiceTable := (choiceTable p4)[choiceIndex := c + 1]\<rparr> else p4)
                else if localPrediction = taken \<and> globalPrediction \<noteq> taken then
                  (if c > 0 then p4\<lparr>choiceTable := (choiceTable p4)[choiceIndex := c - 1]\<rparr> else p4)
                else p4);
          p6 = p5\<lparr>globalPredictor := Gshare_update (globalPredictor p5) a taken target\<rparr>
      in p6\<lparr>localPredictor := Local_update (localPredictor p6) a taken target\<rparr>)"

definition Tournament_reset :: "TournamentPredictor \<Rightarrow> TournamentPredictor" where
  "Tournament_reset p =
     p\<lparr>stats := BranchStats0,
       globalPredictor := Gshare_reset (globalPredictor p),
       localPredictor := Local_reset (localPredictor p),
       choiceTable := replicate (length (choiceTable p)) 1\<rparr>"

subsection \<open>The virtual interface and the factory\<close>

datatype Predictor =
    Static StaticPredictor
  | BTFN BTFNPredictor
  | Bimodal BimodalPredictor
  | Gshare GsharePredictor
  | Local LocalHistoryPredictor
  | Tournament TournamentPredictor

fun predict :: "Predictor \<Rightarrow> u32 \<Rightarrow> u32 \<Rightarrow> bool \<times> Predictor" where
  "predict (Static p) a t = (case Static_predict p a t of (r, p') \<Rightarrow> (r, Static p'))"
| "predict (BTFN p) a t = (case BTFN_predict p a t of (r, p') \<Rightarrow> (r, BTFN p'))"
| "predict (Bimodal p) a t = (case Bimodal_predict p a t of (r, p') \<Rightarrow> (r, Bimodal p'))"
| "predict (Gshare p) a t = (case Gshare_predict p a t of (r, p') \<Rightarrow> (r, Gshare p'))"
| "predict (Local p) a t = (case Local_predict p a t of (r, p') \<Rightarrow> (r, Local p'))"
| "predict (Tournament p) a t = (case Tournament_predict p a t of (r, p') \<Rightarrow> (r, Tournament p'))"

fun update :: "Predictor \<Rightarrow> u32 \<Rightarrow> bool \<Rightarrow> u32 \<Rightarrow> Predictor" where
  "update (Static p) a taken t = Static (Static_update p a taken t)"
| "update (BTFN p) a taken t = BTFN (BTFN_update p a taken t)"
| "update (Bimodal p) a taken t = Bimodal (Bimodal_update p a taken t)"
| "update (Gshare p) a taken t = Gshare (Gshare_update p a taken t)"
| "update (Local p) a taken t = Local (Local_update p a taken t)"
| "update (Tournament p) a taken t = Tournament (Tournament_update p a taken t)"

fun reset_predictor :: "Predictor \<Rightarrow> Predictor" where
  "reset_predictor (Static p) = Static (Static_reset p)"
| "reset_predictor (BTFN p) = BTFN (BTFN_reset p)"
| "reset_predictor (Bimodal p) = Bimodal (Bimodal_reset p)"
| "reset_predictor (Gshare p) = Gshare (Gshare_reset p)"
| "reset_predictor (Local p) = Local (Local_reset p)"
| "reset_predictor (Tournament p) = Tournament (Tournament_reset p)"

fun getStats :: "Predictor \<Rightarrow> BranchStats" where
  "getStats (Static p) = stats p"
| "getStats (BTFN p) = stats p"
| "getStats (Bimodal p) = stats p"
| "getStats (Gshare p) = stats p"
| "getStats (Local p) = stats p"
| "getStats (Tournament p) = stats p"

text \<open>\<open>BranchPredictorFactory::create\<close>.\<close>

fun create :: "PredictorType \<Rightarrow> u32 \<Rightarrow> u32 \<Rightarrow> Predictor" where
  "create STATIC_NOT_TAKEN param1 param2 = Static (newStaticPredictor STATIC_NOT_TAKEN False)"
| "create STATIC_TAKEN param1 param2 = Static (newStaticPredictor STATIC_TAKEN True)"
| "create STATIC_BTFN param1 param2 = BTFN newBTFNPredictor"
| "create BIMODAL_1BIT param1 param2 = Bimodal (newBimodalPredictor BIMODAL_1BIT param1)"
| "create BIMODAL_2BIT param1 param2 = Bimodal (newBimodalPredictor BIMODAL_2BIT param1)"
| "create GSHARE param1 param2 = Gshare (newGsharePredictor param1 param2)"
| "create LOCAL_HISTORY param1 param2 = Local (newLocalHistoryPredictor param1 param2)"
| "create TOURNAMENT param1 param2 = Tournament (newTournamentPredictor param1)"

text \<open>A sequence of calls on a predictor, the results of \<open>predict\<close> dropped.\<close>

datatype call = Predict u32 u32 | Update u32 bool u32 | Reset

fun perform :: "Predictor \<Rightarrow> call \<Rightarrow> Predictor" where
  "perform p (Predict a t) = snd (predict p a t)"
| "perform p (Update a taken t) = update p a taken t"
| "perform p Reset = reset_predictor p"

definition performAll :: "Predictor \<Rightarrow> call list \<Rightarrow> Predictor" where
  "performAll p cs = foldl perform p cs"

text \<open>The statistics as the specification wants them.\<close>

definition statsConsistent :: "BranchStats \<Rightarrow> bool" where
  "statsConsistent st \<longleftrightarrow>
     correctPredictions st + mispredictions st = totalBranches st
     \<and> (totalBranches st > 0 \<longrightarrow>
          accuracy st = Dquot (unat (correctPredictions st)) (unat (totalBranches st)))"

text \<open>
  The four-state machine of the specification: SNT = 0, WNT = 1, WT = 2, ST = 3; a taken
  branch moves one state up and stays at ST, a branch not taken moves one state down and
  stays at SNT.
\<close>

fun fsm :: "nat \<Rightarrow> bool \<Rightarrow> nat" where
  "fsm n True = (if n = 0 then 1 else if n = 1 then 2 else 3)"
| "fsm n False = (if n = 3 then 2 else if n = 2 then 1 else 0)"

section \<open>The predictor class of branch_predictor.hpp\<close>

text \<open>
  This class is also called \<open>BranchPredictor\<close> in the source. It keeps a \<open>std::map\<close> from
  the pc to a state and counts in \<open>int\<close>; its accuracy is a \<open>double\<close>, a percentage.
\<close>

datatype BHTType = BHT_STATIC_NOT_TAKEN | BHT_STATIC_TAKEN | DYNAMIC_1BIT | DYNAMIC_2BIT

record PredictionStats =
  total_predictions :: i32
  bht_correct_predictions :: i32
  bht_incorrect_predictions :: i32
  bht_accuracy :: double

record BHTPredictor =
  predictor_type :: BHTType
  bht :: "u32 \<rightharpoonup> u8"
  bht_stats :: PredictionStats

definition STRONGLY_NOT_TAKEN :: u8 where "STRONGLY_NOT_TAKEN = 0"
definition WEAKLY_NOT_TAKEN :: u8 where "WEAKLY_NOT_TAKEN = 1"
definition WEAKLY_TAKEN :: u8 where "WEAKLY_TAKEN = 2"
definition STRONGLY_TAKEN :: u8 where "STRONGLY_TAKEN = 3"

definition BHT_reset :: "BHTPredictor \<Rightarrow> BHTPredictor" where
  "BHT_reset p =
     p\<lparr>bht := Map.empty,
       bht_stats := \<lparr>total_predictions = 0, bht_correct_predictions = 0,
                     bht_incorrect_predictions = 0, bht_accuracy = D0\<rparr>\<rparr>"

definition newBHTPredictor :: "BHTType \<Rightarrow> BHTPredictor" where
  "newBHTPredictor t =
     \<lparr>predictor_type = t, bht = Map.empty,
      bht_stats = \<lparr>total_predictions = 0, bht_correct_predictions = 0,
                    bht_incorrect_predictions = 0, bht_accuracy = D0\<rparr>\<rparr>"

text \<open>
  \<open>predict\<close> counts the prediction and, for a dynamic type, enters an unseen pc. The
  increment is that of an \<open>int\<close>: from 2147483647 it goes to -2147483648.
\<close>

definition BHT_predict :: "BHTPredictor \<Rightarrow> u32 \<Rightarrow> bool \<times> BHTPredictor" where
  "BHT_predict p a =
     (let st = bht_stats p;
          p1 = p\<lparr>bht_stats := st\<lparr>total_predictions := total_predictions st + 1\<rparr>\<rparr>
      in case predictor_type p1 of
           BHT_STATIC_NOT_TAKEN \<Rightarrow> (False, p1)
         | BHT_STATIC_TAKEN \<Rightarrow> (True, p1)
         | DYNAMIC_1BIT \<Rightarrow>
             (case bht p1 a of
                None \<Rightarrow> (False, p1\<lparr>bht := (bht p1)(a \<mapsto> 0)\<rparr>)
              | Some e \<Rightarrow> (e = 1, p1))
         | DYNAMIC_2BIT \<Rightarrow>
             (case bht p1 a of
                None \<Rightarrow> (False, p1\<lparr>bht := (bht p1)(a \<mapsto> WEAKLY_NOT_TAKEN)\<rparr>)
              | Some e \<Rightarrow> (e = WEAKLY_TAKEN \<or> e = STRONGLY_TAKEN, p1)))"

definition nextState :: "u8 \<Rightarrow> bool \<Rightarrow> u8" where
  "nextState st actual_outcome =
     (if actual_outcome then
        (if st = STRONGLY_NOT_TAKEN then WEAKLY_NOT_TAKEN
         else if st = WEAKLY_NOT_TAKEN then WEAKLY_TAKEN
         else if st = WEAKLY_TAKEN then STRONGLY_TAKEN
         else st)
      else
        (if st = STRONGLY_NOT_TAKEN then st
         else if st = WEAKLY_NOT_TAKEN then STRONGLY_NOT_TAKEN
         else if st = WEAKLY_TAKEN then WEAKLY_NOT_TAKEN
         else if st = STRONGLY_TAKEN then WEAKLY_TAKEN
         else st))"

text \<open>
  \<open>update\<close> recomputes the prediction from the table, moves the entry, counts the outcome
  and, when the total read as an \<open>int\<close> is positive, stores the percentage.
\<close>

definition BHT_update :: "BHTPredictor \<Rightarrow> u32 \<Rightarrow> bool \<Rightarrow> BHTPredictor" where
  "BHT_update p a actual_outcome =
     (let (predicted_outcome, p1) =
            (case predictor_type p of
               BHT_STATIC_NOT_TAKEN \<Rightarrow> (False, p)
             | BHT_STATIC_TAKEN \<Rightarrow> (True, p)
             | DYNAMIC_1BIT \<Rightarrow>
                 ((case bht p a of None \<Rightarrow> False | Some e \<Rightarrow> e = 1),
                  p\<lparr>bht := (bht p)(a \<mapsto> (if actual_outcome then 1 else 0))\<rparr>)
             | DYNAMIC_2BIT \<Rightarrow>
                 (case bht p a of
                    Some st \<Rightarrow>
                      (st = WEAKLY_TAKEN \<or> st = STRONGLY_TAKEN,
                       p\<lparr>bht := (bht p)(a \<mapsto> nextState st actual_outcome)\<rparr>)
                  | None \<Rightarrow>
                      (False,
                       p\<lparr>bht := (bht p)(a \<mapsto>
                            (if actual_outcome then WEAKLY_TAKEN else WEAKLY_NOT_TAKEN))\<rparr>)));
          st1 = bht_stats p1;
          st2 = (if predicted_outcome = actual_outcome
                 then st1\<lparr>bht_correct_predictions := bht_correct_predictions st1 + 1\<rparr>
                 else st1\<lparr>bht_incorrect_predictions := bht_incorrect_predictions st1 + 1\<rparr>);
          st3 = (if sint (total_predictions st2) > 0
                 then st2\<lparr>bht_accuracy :=
                        Dpct (sint (bht_correct_predictions st2)) (sint (total_predictions st2))\<rparr>
                 else st2)
      in p1\<lparr>bht_stats := st3\<rparr>)"

datatype bht_call = BHT_Predict u32 | BHT_Update u32 bool

fun BHT_perform :: "BHTPredictor \<Rightarrow> bht_call \<Rightarrow> BHTPredictor" where
  "BHT_perform p (BHT_Predict a) = snd (BHT_predict p a)"
| "BHT_perform p (BHT_Update a outcome) = BHT_update p a outcome"

definition BHT_performAll :: "BHTPredictor \<Rightarrow> bht_call list \<Rightarrow> BHTPredictor" where
  "BHT_performAll p cs = foldl BHT_perform p cs"

fun isPredictCall :: "bht_call \<Rightarrow> bool" where
  "isPredictCall (BHT_Predict a) = True"
| "isPredictCall (BHT_Update a outcome) = False"

section \<open>Memory and register accessors of MIPSSimulator\<close>

lemma size_t_minus_3:
  assumes "3 \<le> (n::nat)" and "n \<le> 2 ^ 32"
  shows "(n + 2 ^ 64 - 3) mod 2 ^ 64 = n - 3"
proof -
  have e: "n + 2 ^ 64 - 3 = (n - 3) + 2 ^ 64"
    using assms by simp
  have "n - 3 < (2::nat) ^ 64"
    using assms by simp
  then show ?thesis
    unfolding e by (simp only: mod_add_self2 mod_less)
qed

lemma isValidAddress_iff:
  assumes "3 \<le> length (memory s)" and "length (memory s) \<le> 2 ^ 32"
  shows "isValidAddress s a \<longleftrightarrow> unat a + 3 < length (memory s)"
  unfolding isValidAddress_def size_t_minus_3 [OF assms] using assms(1) by auto

lemma unat_offsets:
  fixes a :: u32
  assumes "unat a + 3 < 2 ^ 32"
  shows "unat (a + 1) = unat a + 1" "unat (a + 2) = unat a + 2" "unat (a + 3) = unat a + 3"
  using assms by (simp_all add: unat_word_ariths)

lemma word_of_bytes:
  fixes v :: u32
  shows "push_bit 24 (ucast (ucast (drop_bit 24 v AND 0xFF) :: u8)) OR
         push_bit 16 (ucast (ucast (drop_bit 16 v AND 0xFF) :: u8)) OR
         push_bit 8 (ucast (ucast (drop_bit 8 v AND 0xFF) :: u8)) OR
         ucast (ucast (v AND 0xFF) :: u8) = v"
proof (rule bit_word_eqI)
  fix n :: nat
  assume n: "n < LENGTH(32)"
  have m: "(0xFF :: u32) = mask 8"
    by (simp add: mask_eq_exp_minus_1)
  consider "n < 8" | "8 \<le> n" "n < 16" | "16 \<le> n" "n < 24" | "24 \<le> n" "n < 32"
    using n by fastforce
  then show "bit (push_bit 24 (ucast (ucast (drop_bit 24 v AND 0xFF) :: u8)) OR
         push_bit 16 (ucast (ucast (drop_bit 16 v AND 0xFF) :: u8)) OR
         push_bit 8 (ucast (ucast (drop_bit 8 v AND 0xFF) :: u8)) OR
         (ucast (ucast (v AND 0xFF) :: u8) :: u32)) n \<longleftrightarrow> bit v n"
    unfolding m by cases (auto simp: bit_simps)
qed

lemma length_storeWord [simp]: "length (storeWord mem a v) = length mem"
  by (simp add: storeWord_def)

lemma storeWord_bytes:
  assumes "unat a + 3 < length mem" and "length mem \<le> 2 ^ 32"
  shows "storeWord mem a v ! unat a = ucast (drop_bit 24 v AND 0xFF)"
    and "storeWord mem a v ! (unat a + 1) = ucast (drop_bit 16 v AND 0xFF)"
    and "storeWord mem a v ! (unat a + 2) = ucast (drop_bit 8 v AND 0xFF)"
    and "storeWord mem a v ! (unat a + 3) = ucast (v AND 0xFF)"
proof -
  have "unat a + 3 < 2 ^ 32"
    using assms by simp
  note o = unat_offsets [OF this]
  show "storeWord mem a v ! unat a = ucast (drop_bit 24 v AND 0xFF)"
    and "storeWord mem a v ! (unat a + 1) = ucast (drop_bit 16 v AND 0xFF)"
    and "storeWord mem a v ! (unat a + 2) = ucast (drop_bit 8 v AND 0xFF)"
    and "storeWord mem a v ! (unat a + 3) = ucast (v AND 0xFF)"
    using assms(1) by (simp_all add: storeWord_def o)
qed

lemma wordAt_storeWord:
  assumes "unat a + 3 < length mem" and "length mem \<le> 2 ^ 32"
  shows "wordAt (storeWord mem a v) a = v"
proof -
  have "unat a + 3 < 2 ^ 32"
    using assms by simp
  note o = unat_offsets [OF this]
  show ?thesis
    unfolding wordAt_def o storeWord_bytes [OF assms] by (rule word_of_bytes)
qed

text \<open>
  C10. \<open>getRegister\<close> and \<open>setRegister\<close> are guarded: for an index outside 0..31
  \<open>getRegister\<close> returns 0 and \<open>setRegister\<close> leaves the simulator as it is, and
  \<open>setRegister\<close> on index 0 changes nothing either.
\<close>

theorem register_access_guarded:
  "(idx < 0 \<or> 32 \<le> idx \<longrightarrow> getRegister s idx = 0 \<and> setRegister s idx v = s)
   \<and> setRegister s 0 v = s"
  by (auto simp: getRegister_def setRegister_def)

theorem register_access_guarded_witness:
  "((32::int) < 0 \<or> 32 \<le> (32::int)) \<and> getRegister newMIPSSimulator 32 = 0
   \<and> setRegister newMIPSSimulator 32 7 = newMIPSSimulator"
  using register_access_guarded [of 32 newMIPSSimulator 7] by simp

text \<open>
  C8. For an address \<open>a\<close> with \<open>a + 3\<close> inside the memory, \<open>setMemory\<close> followed by
  \<open>getMemory\<close> at \<open>a\<close> returns the stored word, and the four bytes are laid out
  big-endian, the most significant byte at \<open>a\<close>: the word 0x11223344 is stored as the bytes
  0x11, 0x22, 0x33, 0x44 at \<open>a\<close>, \<open>a + 1\<close>, \<open>a + 2\<close>, \<open>a + 3\<close>.
\<close>

theorem setMemory_getMemory_big_endian:
  assumes "unat a + 3 < length (memory s)" and "length (memory s) \<le> 2 ^ 32"
  shows "getMemory (setMemory s a v) a = v
    \<and> memory (setMemory s a v) ! unat a = ucast (drop_bit 24 v)
    \<and> memory (setMemory s a v) ! (unat a + 1) = ucast (drop_bit 16 v)
    \<and> memory (setMemory s a v) ! (unat a + 2) = ucast (drop_bit 8 v)
    \<and> memory (setMemory s a v) ! (unat a + 3) = ucast v
    \<and> map (\<lambda>i. memory (setMemory s a 0x11223344) ! (unat a + i)) [0, 1, 2, 3]
        = [0x11, 0x22, 0x33, 0x44]"
proof -
  have l: "3 \<le> length (memory s)"
    using assms(1) by simp
  have ok: "isValidAddress s a"
    using assms by (simp add: isValidAddress_iff [OF l assms(2)])
  have mem: "memory (setMemory s a w) = storeWord (memory s) a w" for w
    using ok by (simp add: setMemory_def)
  have ok': "isValidAddress (setMemory s a v) a"
    using ok by (simp add: isValidAddress_def mem)
  have m: "(0xFF :: u32) = mask 8"
    by (simp add: mask_eq_exp_minus_1)
  have b: "(ucast (w AND 0xFF) :: u8) = ucast w" for w :: u32
    unfolding m by (rule bit_word_eqI) (auto simp: bit_simps)
  have "getMemory (setMemory s a v) a = v"
    using ok' by (simp add: getMemory_def mem wordAt_storeWord [OF assms])
  moreover have "memory (setMemory s a v) ! unat a = ucast (drop_bit 24 v)"
    by (simp only: mem storeWord_bytes [OF assms] b)
  moreover have "memory (setMemory s a v) ! (unat a + 1) = ucast (drop_bit 16 v)"
    by (simp only: mem storeWord_bytes [OF assms] b)
  moreover have "memory (setMemory s a v) ! (unat a + 2) = ucast (drop_bit 8 v)"
    by (simp only: mem storeWord_bytes [OF assms] b)
  moreover have "memory (setMemory s a v) ! (unat a + 3) = ucast v"
    by (simp only: mem storeWord_bytes [OF assms] b)
  moreover have "map (\<lambda>i. memory (setMemory s a 0x11223344) ! (unat a + i)) [0, 1, 2, 3]
        = [0x11, 0x22, 0x33, 0x44]"
    using storeWord_bytes [OF assms, of "0x11223344"] by (simp add: mem)
  ultimately show ?thesis
    by blast
qed

theorem setMemory_getMemory_big_endian_witness:
  "unat (0x100 :: u32) + 3 < length (memory newMIPSSimulator)
   \<and> length (memory newMIPSSimulator) \<le> 2 ^ 32
   \<and> getMemory (setMemory newMIPSSimulator 0x100 0x11223344) 0x100 = 0x11223344
   \<and> memory (setMemory newMIPSSimulator 0x100 0x11223344) ! 0x100 = 0x11
   \<and> memory (setMemory newMIPSSimulator 0x100 0x11223344) ! 0x103 = 0x44"
proof -
  have h1: "unat (0x100 :: u32) + 3 < length (memory newMIPSSimulator)"
    by (simp add: newMIPSSimulator_def)
  have h2: "length (memory newMIPSSimulator) \<le> 2 ^ 32"
    by (simp add: newMIPSSimulator_def)
  show ?thesis
    using h1 h2 setMemory_getMemory_big_endian [OF h1 h2, of "0x11223344"] by simp
qed

section \<open>Loading a malformed image\<close>

lemma unat_plus_4:
  fixes a :: u32
  assumes "unat a + 4 < 2 ^ 32"
  shows "unat (a + 4) = unat a + 4"
  using assms by (simp add: unat_word_ariths)

lemma ucast_low_byte: "(ucast (w AND 0xFF) :: u8) = ucast w" for w :: u32
proof -
  have m: "(0xFF :: u32) = mask 8"
    by (simp add: mask_eq_exp_minus_1)
  show ?thesis
    unfolding m by (rule bit_word_eqI) (auto simp: bit_simps)
qed

lemma update_four:
  assumes "length pre = n"
  shows "(pre @ b0 # b1 # b2 # b3 # post)[n := c0, n + 1 := c1, n + 2 := c2, n + 3 := c3]
    = pre @ c0 # c1 # c2 # c3 # post"
  using assms by (simp add: list_update_append eval_nat_numeral)

text \<open>A word stored inside the memory replaces four bytes by its bytes, big end first.\<close>

lemma storeWord_bigEndianBytes:
  assumes "unat a + 4 \<le> length mem" and "length mem \<le> 2 ^ 32"
  shows "storeWord mem a w = take (unat a) mem @ bigEndianBytes w @ drop (unat a + 4) mem"
proof -
  have "unat a + 3 < 2 ^ 32"
    using assms by simp
  note o = unat_offsets [OF this]
  have d: "drop (unat a) mem = mem ! unat a # mem ! (unat a + 1) # mem ! (unat a + 2)
      # mem ! (unat a + 3) # drop (unat a + 4) mem"
    using assms(1) by (simp add: Cons_nth_drop_Suc numeral_eq_Suc)
  have "mem = take (unat a) mem @ drop (unat a) mem"
    by simp
  then have m: "mem = take (unat a) mem @ mem ! unat a # mem ! (unat a + 1) # mem ! (unat a + 2)
      # mem ! (unat a + 3) # drop (unat a + 4) mem"
    using d by simp
  have l: "length (take (unat a) mem) = unat a"
    using assms(1) by simp
  have "storeWord mem a w = mem[unat a := ucast (drop_bit 24 w), unat a + 1 := ucast (drop_bit 16 w),
      unat a + 2 := ucast (drop_bit 8 w), unat a + 3 := ucast w]"
    by (simp only: storeWord_def o ucast_low_byte)
  also have "\<dots> = take (unat a) mem @ ucast (drop_bit 24 w) # ucast (drop_bit 16 w)
      # ucast (drop_bit 8 w) # ucast w # drop (unat a + 4) mem"
    by (subst m) (rule update_four [OF l])
  finally show ?thesis
    by (simp add: bigEndianBytes_def)
qed

lemma imageWords_simps:
  "imageWords [] = []"
  "skipped l \<Longrightarrow> imageWords (l # ls) = imageWords ls"
  "\<not> skipped l \<Longrightarrow> stoul16 l = Some v \<Longrightarrow> imageWords (l # ls) = word_of_nat v # imageWords ls"
  by (simp_all add: imageWords_def map_filter_simps)

lemma length_bigEndianBytes: "length (bigEndianBytes w) = 4"
  by (simp add: bigEndianBytes_def)

text \<open>
  The loop over lines that all parse, when their words fit into the memory: it runs to its
  end and has written the words one after another from its start address.
\<close>

lemma loadLines_good:
  assumes "\<forall>l \<in> set good. skipped l \<or> stoul16 l \<noteq> None"
    and "unat a + 4 * length (imageWords good) \<le> length mem" and "length mem < 2 ^ 32"
  shows "loadLines good a mem =
    (True, take (unat a) mem @ concat (map bigEndianBytes (imageWords good))
             @ drop (unat a + 4 * length (imageWords good)) mem)"
  using assms
proof (induction good arbitrary: a mem)
  case Nil
  then show ?case by (simp add: imageWords_simps)
next
  case (Cons l ls)
  show ?case
  proof (cases "skipped l")
    case True
    then show ?thesis
      using Cons.IH [of a mem] Cons.prems by (simp add: imageWords_simps)
  next
    case False
    then obtain v where v: "stoul16 l = Some v"
      using Cons.prems(1) by auto
    let ?w = "word_of_nat v :: u32"
    have iw: "imageWords (l # ls) = ?w # imageWords ls"
      using False v by (rule imageWords_simps)
    have fit: "unat a + 4 \<le> length mem"
      using Cons.prems(2) by (simp add: iw)
    have a3: "unat (a + 3) = unat a + 3"
      using fit Cons.prems(3) by (simp add: unat_offsets)
    have a4: "unat (a + 4) = unat a + 4"
      using fit Cons.prems(3) by (simp add: unat_plus_4)
    let ?mem = "storeWord mem a ?w"
    have sw: "?mem = take (unat a) mem @ bigEndianBytes ?w @ drop (unat a + 4) mem"
      using fit Cons.prems(3) by (simp add: storeWord_bigEndianBytes)
    have len: "length ?mem = length mem"
      by (simp add: storeWord_def)
    have ih: "loadLines ls (a + 4) ?mem =
      (True, take (unat (a + 4)) ?mem @ concat (map bigEndianBytes (imageWords ls))
               @ drop (unat (a + 4) + 4 * length (imageWords ls)) ?mem)"
      using Cons.prems by (intro Cons.IH) (simp_all add: iw a4 len)
    have t: "take (unat a + 4) ?mem = take (unat a) mem @ bigEndianBytes ?w"
      using fit by (simp add: sw length_bigEndianBytes)
    have d: "drop (unat a + 4 + 4 * length (imageWords ls)) ?mem
      = drop (unat a + 4 + 4 * length (imageWords ls)) mem"
      using fit by (simp add: sw length_bigEndianBytes add_ac)
    have "loadLines (l # ls) a mem = loadLines ls (a + 4) ?mem"
      using False v fit by (simp add: a3)
    then show ?thesis
      unfolding ih a4 t d by (simp add: iw add.assoc)
  qed
qed

text \<open>The loop stops at the first line on which \<open>stoul\<close> throws, with what it has written.\<close>

lemma loadLines_malformed:
  assumes "\<forall>l \<in> set good. skipped l \<or> stoul16 l \<noteq> None"
      and "\<not> skipped bad" and "stoul16 bad = None"
  shows "loadLines (good @ bad # rest) a mem = (False, snd (loadLines good a mem))"
  using assms
proof (induction good arbitrary: a mem)
  case Nil
  then show ?case by simp
next
  case (Cons l ls)
  then show ?case by (auto split: option.splits)
qed

lemma two_lines: "getlines [] (''20020005'' @ [CHR 0x0A] @ ''zz'') = [''20020005'', ''zz'']"
  by simp

lemma stoul16_word: "stoul16 ''20020005'' = Some 0x20020005"
  by (simp add: stoul16_def skipSign_def skipPrefix_def hexval_def isspace_def)

lemma stoul16_zz: "stoul16 ''zz'' = None"
  by (simp add: stoul16_def skipSign_def skipPrefix_def hexval_def isspace_def)

lemma imageWords_example: "imageWords [''20020005''] = [0x20020005]"
  by (simp add: imageWords_def map_filter_simps skipped_def stoul16_word)

text \<open>
  C9, as the specification states it, fails. Take a simulator whose pc is 8 and the image
  of the two lines \<open>20020005\<close> and \<open>zz\<close>. \<open>loadProgramFromString\<close> returns false, the word
  of the first line is in the memory at address 0 and the pc is still 8; after \<open>reset\<close>
  the word at address 0 would be 0, as before the call, and the pc would be 0.
\<close>

theorem load_failure_keeps_words:
  "fst (loadProgramFromString (newMIPSSimulator\<lparr>pc := 8\<rparr>) (''20020005'' @ [CHR 0x0A] @ ''zz'')) = False
   \<and> getMemory (snd (loadProgramFromString (newMIPSSimulator\<lparr>pc := 8\<rparr>)
         (''20020005'' @ [CHR 0x0A] @ ''zz''))) 0 = 0x20020005
   \<and> pc (snd (loadProgramFromString (newMIPSSimulator\<lparr>pc := 8\<rparr>)
         (''20020005'' @ [CHR 0x0A] @ ''zz''))) = 8
   \<and> getMemory (reset (newMIPSSimulator\<lparr>pc := 8\<rparr>)) 0 = 0
   \<and> pc (reset (newMIPSSimulator\<lparr>pc := 8\<rparr>)) = 0"
  by (simp add: loadProgramFromString_def two_lines stoul16_word stoul16_zz skipped_def
      newMIPSSimulator_def getMemory_def isValidAddress_def wordAt_def storeWord_def reset_def
      initializePipeline_def)

text \<open>
  C9, amended. Let a line of the image be malformed, that is \<open>stoul\<close> throws on it, let the
  lines before it be comments, empty or parse, and let their words fit into the memory.
  Then \<open>loadProgramFromString\<close> returns false and rolls nothing back: the registers, the
  pc, the halt flag and every other member are as before the call, and the memory holds
  the words of the lines before the malformed one, big end first, one after another from
  address 0, followed by the bytes that were there before.
\<close>

theorem loadProgramFromString_malformed:
  assumes "getlines [] program = good @ bad # rest"
      and "\<forall>l \<in> set good. skipped l \<or> stoul16 l \<noteq> None"
      and "\<not> skipped bad" and "stoul16 bad = None"
      and "4 * length (imageWords good) \<le> length (memory s)" and "length (memory s) < 2 ^ 32"
  shows "loadProgramFromString s program =
    (False, s\<lparr>memory := concat (map bigEndianBytes (imageWords good))
                           @ drop (4 * length (imageWords good)) (memory s)\<rparr>)"
proof -
  have "loadLines good 0 (memory s) =
    (True, take (unat (0::u32)) (memory s) @ concat (map bigEndianBytes (imageWords good))
             @ drop (unat (0::u32) + 4 * length (imageWords good)) (memory s))"
    using assms(2,5,6) by (intro loadLines_good) simp_all
  then show ?thesis
    by (simp add: loadProgramFromString_def assms(1) loadLines_malformed [OF assms(2-4)])
qed

theorem loadProgramFromString_malformed_witness:
  "getlines [] (''20020005'' @ [CHR 0x0A] @ ''zz'') = [''20020005''] @ ''zz'' # []
   \<and> stoul16 ''20020005'' = Some 0x20020005
   \<and> \<not> skipped ''zz'' \<and> stoul16 ''zz'' = None
   \<and> imageWords [''20020005''] = [0x20020005]
   \<and> 4 * length (imageWords [''20020005''])
       \<le> length (memory (newMIPSSimulator\<lparr>registers := (replicate 32 0)[2 := 7], pc := 8,
                              halted := True\<rparr>))
   \<and> length (memory (newMIPSSimulator\<lparr>registers := (replicate 32 0)[2 := 7], pc := 8,
                        halted := True\<rparr>)) < 2 ^ 32
   \<and> loadProgramFromString
         (newMIPSSimulator\<lparr>registers := (replicate 32 0)[2 := 7], pc := 8, halted := True\<rparr>)
         (''20020005'' @ [CHR 0x0A] @ ''zz'')
       = (False, newMIPSSimulator\<lparr>registers := (replicate 32 0)[2 := 7], pc := 8, halted := True,
                   memory := [0x20, 0x02, 0x00, 0x05] @ replicate 65532 0\<rparr>)"
proof -
  let ?s = "newMIPSSimulator\<lparr>registers := (replicate 32 0)[2 := 7], pc := 8, halted := True\<rparr>"
  have h1: "getlines [] (''20020005'' @ [CHR 0x0A] @ ''zz'') = [''20020005''] @ ''zz'' # []"
    by simp
  have h2: "\<forall>l \<in> set [''20020005'']. skipped l \<or> stoul16 l \<noteq> None"
    by (simp add: stoul16_word)
  have h3: "\<not> skipped ''zz''"
    by (simp add: skipped_def)
  have h5: "4 * length (imageWords [''20020005'']) \<le> length (memory ?s)"
    by (simp add: imageWords_example newMIPSSimulator_def)
  have h6: "length (memory ?s) < 2 ^ 32"
    by (simp add: newMIPSSimulator_def)
  have b: "bigEndianBytes 0x20020005 = [0x20, 0x02, 0x00, 0x05]"
    by (simp add: bigEndianBytes_def)
  have d: "drop 4 (memory newMIPSSimulator) = replicate 65532 0"
    by (simp add: newMIPSSimulator_def)
  have r: "loadProgramFromString ?s (''20020005'' @ [CHR 0x0A] @ ''zz'')
       = (False, ?s\<lparr>memory := [0x20, 0x02, 0x00, 0x05] @ replicate 65532 0\<rparr>)"
    using loadProgramFromString_malformed [OF h1 h2 h3 stoul16_zz h5 h6]
    by (simp add: imageWords_example b d)
  show ?thesis
    using h1 h3 h5 h6 r stoul16_zz stoul16_word imageWords_example by blast
qed

section \<open>The two paths of MIPSSimulator::step\<close>

lemma advancePipeline_frame:
  "registers (advancePipeline s) = registers s"
  "memory (advancePipeline s) = memory s"
  "halted (advancePipeline s) = halted s"
  "pipeline_enabled (advancePipeline s) = pipeline_enabled s"
  "step_mode (advancePipeline s) = step_mode s"
  by (simp_all add: advancePipeline_def handleHazards_def Let_def)

lemma step_pipelined:
  assumes "pipeline_enabled s" and "\<not> halted s"
  shows "step s = (True, (advancePipeline s)\<lparr>registers := (registers s)[0 := 0]\<rparr>)"
  using assms by (simp add: step_def finishStep_def advancePipeline_frame)

lemma steps_pipelined:
  assumes "pipeline_enabled s" and "\<not> halted s"
  shows "memory (steps n s) = memory s
    \<and> registers (steps n s) = (if n = 0 then registers s else (registers s)[0 := 0])
    \<and> \<not> halted (steps n s) \<and> pipeline_enabled (steps n s)"
  using assms
proof (induction n arbitrary: s)
  case 0
  then show ?case by simp
next
  case (Suc n)
  let ?s' = "(advancePipeline s)\<lparr>registers := (registers s)[0 := 0]\<rparr>"
  have "pipeline_enabled ?s'" "\<not> halted ?s'"
    using Suc.prems by (simp_all add: advancePipeline_frame)
  from Suc.IH [OF this] show ?case
    using Suc.prems by (simp add: step_pipelined advancePipeline_frame)
qed

lemma run_pipelined:
  assumes "pipeline_enabled s" and "\<not> halted s" and "\<not> step_mode s"
  shows "run n s = None"
  using assms
proof (induction n arbitrary: s)
  case 0
  then show ?case by simp
next
  case (Suc n)
  let ?s' = "(advancePipeline s)\<lparr>registers := (registers s)[0 := 0]\<rparr>"
  have "pipeline_enabled ?s'" "\<not> halted ?s'" "\<not> step_mode ?s'"
    using Suc.prems by (simp_all add: advancePipeline_frame)
  from Suc.IH [OF this] show ?case
    using Suc.prems by (simp add: step_pipelined advancePipeline_frame)
qed

lemma wordAt_zero:
  assumes "unat a + 3 < 2 ^ 32" and "\<forall>i. unat a \<le> i \<and> i \<le> unat a + 3 \<longrightarrow> mem ! i = 0"
  shows "wordAt mem a = 0"
  using assms by (simp add: wordAt_def unat_offsets)

lemma decode_zero: "decodeInstruction 0 = \<lparr>raw = 0, opcode = 0, rs = 0, rt = 0, rd = 0, immediate = 0,
   jump_addr = 0, funct = 0, shamt = 0, itype = ''R''\<rparr>"
  by (simp add: decodeInstruction_def)

lemma isValid_65536:
  assumes "length (memory s) = 65536"
  shows "isValidAddress s a \<longleftrightarrow> unat a < 65533"
  using assms by (simp add: isValidAddress_def)

lemma nop_step:
  assumes "\<not> halted s" and "\<not> pipeline_enabled s" and "length (memory s) = 65536"
    and "unat (pc s) < 65533" and "wordAt (memory s) (pc s) = 0"
  shows "step s = (True, s\<lparr>pc := pc s + 4, registers := (registers s)[0 := 0]\<rparr>)"
  using assms
  by (simp add: step_def isValid_65536 decode_zero executeInstruction_def executeR_def
      MIPS_constants finishStep_def)

lemma halt_step:
  assumes "\<not> halted s" and "\<not> pipeline_enabled s" and "length (memory s) = 65536"
    and "65533 \<le> unat (pc s)"
  shows "step s = (False, s\<lparr>halted := True\<rparr>)"
  using assms by (simp add: step_def isValid_65536)

lemma nop_slide:
  assumes "\<not> halted s" and "\<not> pipeline_enabled s" and "\<not> step_mode s"
    and "length (memory s) = 65536" and "unat (pc s) + 4 * k = 65536"
    and "\<forall>i. unat (pc s) \<le> i \<and> i < 65536 \<longrightarrow> memory s ! i = 0"
    and "registers s ! 0 = 0"
  shows "run (Suc k + extra) s = Some (s\<lparr>pc := 65536, halted := True\<rparr>)"
  using assms
proof (induction k arbitrary: s)
  case 0
  then have u: "unat (pc s) = 65536" by simp
  have "pc s = word_of_nat (unat (pc s))"
    by simp
  then have "pc s = 65536"
    unfolding u by simp
  moreover have "step s = (False, s\<lparr>halted := True\<rparr>)"
    using 0 u by (simp add: halt_step)
  ultimately show ?case
    using 0 by simp
next
  case (Suc k)
  then have u: "unat (pc s) + 4 + 4 * k = 65536" by simp
  have w: "wordAt (memory s) (pc s) = 0"
    using u Suc.prems(6) by (intro wordAt_zero) auto
  let ?s' = "s\<lparr>pc := pc s + 4, registers := (registers s)[0 := 0]\<rparr>"
  have st: "step s = (True, ?s')"
    using Suc.prems u w by (intro nop_step) auto
  have u': "unat (pc s + 4) = unat (pc s) + 4"
    using u by (simp add: unat_word_ariths)
  have r: "(registers s)[0 := 0] = registers s"
    using Suc.prems(7) by (metis list_update_id)
  have "run (Suc k + extra) ?s' = Some (?s'\<lparr>pc := 65536, halted := True\<rparr>)"
    using Suc.prems u u' by (intro Suc.IH) (auto simp: r)
  then show ?case
    using Suc.prems st by (simp add: r)
qed


lemma direct0: "snd (loadProgramFromString newMIPSSimulator ''20020005'')
   = newMIPSSimulator\<lparr>memory := storeWord (replicate 65536 0) 0 0x20020005\<rparr>"
  by (simp add: loadProgramFromString_def stoul16_word skipped_def newMIPSSimulator_def reset_def)

lemma first_step: "step (newMIPSSimulator\<lparr>memory := storeWord (replicate 65536 0) 0 0x20020005\<rparr>)
  = (True, newMIPSSimulator\<lparr>memory := storeWord (replicate 65536 0) 0 0x20020005,
       registers := (replicate 32 0)[2 := 5, 0 := 0], pc := 4\<rparr>)"
  by (simp add: step_def newMIPSSimulator_def isValidAddress_def wordAt_def storeWord_def
     decodeInstruction_def executeInstruction_def executeI_def MIPS_constants finishStep_def
     setReg_def regOf_def signExtend16_def)

lemma run_Suc:
  assumes "step s = (True, s')" and "\<not> halted s" and "\<not> step_mode s'"
  shows "run (Suc n) s = run n s'"
  using assms by simp

lemma direct_run:
  "run 16385 (snd (loadProgramFromString newMIPSSimulator ''20020005''))
     = Some (newMIPSSimulator\<lparr>memory := storeWord (replicate 65536 0) 0 0x20020005,
          registers := (replicate 32 0)[2 := 5, 0 := 0], pc := 65536, halted := True\<rparr>)"
proof -
  let ?s0 = "newMIPSSimulator\<lparr>memory := storeWord (replicate 65536 0) 0 0x20020005\<rparr>"
  let ?s1 = "newMIPSSimulator\<lparr>memory := storeWord (replicate 65536 0) 0 0x20020005,
       registers := (replicate 32 0)[2 := 5, 0 := 0], pc := 4\<rparr>"
  have n: "(16385::nat) = Suc (Suc 16383 + 0)"
    by simp
  have "run (Suc (Suc 16383 + 0)) ?s0 = run (Suc 16383 + 0) ?s1"
    by (rule run_Suc [OF first_step]) (simp_all add: newMIPSSimulator_def)
  also have "\<dots> = Some (?s1\<lparr>pc := 65536, halted := True\<rparr>)"
    by (rule nop_slide) (auto simp: newMIPSSimulator_def storeWord_def)
  finally show ?thesis
    unfolding direct0 n by simp
qed

text \<open>
  The pipelined path of \<open>MIPSSimulator::step\<close> in general: it executes no instruction.
  After any number of steps the memory is as it was and so are the registers, except that
  register 0 has been cleared; the simulator is never halted, and with step mode off
  \<open>run\<close> does not return.
\<close>

lemma pipelined_step_executes_nothing:
  assumes "pipeline_enabled s" and "\<not> halted s"
  shows "memory (steps n s) = memory s
    \<and> registers (steps n s) = (if n = 0 then registers s else (registers s)[0 := 0])
    \<and> \<not> halted (steps n s)
    \<and> (\<not> step_mode s \<longrightarrow> run n s = None)"
  using steps_pipelined [OF assms, of n] run_pipelined [OF assms, of n] by blast

lemma pipe0: "snd (loadProgramFromString (enablePipeline newMIPSSimulator True) ''20020005'')
   = newMIPSSimulator\<lparr>memory := storeWord (replicate 65536 0) 0 0x20020005, pipeline_enabled := True\<rparr>"
  by (simp add: loadProgramFromString_def stoul16_word skipped_def newMIPSSimulator_def reset_def
      enablePipeline_def initializePipeline_def)

text \<open>
  C1. The two paths do not agree on the image of the single word 0x20020005
  (\<open>addi $2, $0, 5\<close>), which the zero words of the memory follow. With the pipeline
  disabled \<open>run\<close> returns with 5 in register 2. With the pipeline enabled \<open>run\<close> does
  not return, whatever the fuel, and after as many steps register 2 is 0.
\<close>

theorem pipeline_differs_from_direct:
  "registerAfterRun 16385 (snd (loadProgramFromString newMIPSSimulator ''20020005'')) 2 = Some 5
   \<and> (\<forall>n. run n (snd (loadProgramFromString (enablePipeline newMIPSSimulator True) ''20020005''))
          = None)
   \<and> getRegister
        (steps 16385 (snd (loadProgramFromString (enablePipeline newMIPSSimulator True) ''20020005''))) 2
       = 0"
proof -
  let ?p = "newMIPSSimulator\<lparr>memory := storeWord (replicate 65536 0) 0 0x20020005, pipeline_enabled := True\<rparr>"
  have e: "pipeline_enabled ?p" and h: "\<not> halted ?p" and m: "\<not> step_mode ?p"
    by (simp_all add: newMIPSSimulator_def)
  have "registerAfterRun 16385 (snd (loadProgramFromString newMIPSSimulator ''20020005'')) 2 = Some 5"
    by (simp add: registerAfterRun_def direct_run getRegister_def)
  moreover have "\<forall>n. run n ?p = None"
    using run_pipelined [OF e h m] by blast
  moreover have "getRegister (steps 16385 ?p) 2 = 0"
    using steps_pipelined [OF e h, of 16385] by (simp add: getRegister_def newMIPSSimulator_def)
  ultimately show ?thesis
    unfolding pipe0 by blast
qed

lemma pipelined_step_executes_nothing_example:
  "pipeline_enabled (enablePipeline newMIPSSimulator True)
   \<and> \<not> halted (enablePipeline newMIPSSimulator True)
   \<and> \<not> step_mode (enablePipeline newMIPSSimulator True)
   \<and> memory (steps 3 (enablePipeline newMIPSSimulator True)) = replicate 65536 0
   \<and> registers (steps 3 (enablePipeline newMIPSSimulator True)) = replicate 32 0
   \<and> run 3 (enablePipeline newMIPSSimulator True) = None"
proof -
  have e: "pipeline_enabled (enablePipeline newMIPSSimulator True)"
   and h: "\<not> halted (enablePipeline newMIPSSimulator True)"
   and m: "\<not> step_mode (enablePipeline newMIPSSimulator True)"
    by (simp_all add: enablePipeline_def initializePipeline_def newMIPSSimulator_def)
  have r: "registers (enablePipeline newMIPSSimulator True) = replicate 32 0"
    "memory (enablePipeline newMIPSSimulator True) = replicate 65536 0"
    by (simp_all add: enablePipeline_def initializePipeline_def newMIPSSimulator_def)
  have z: "(replicate 32 (0::u32))[0 := 0] = replicate 32 0"
    by (simp add: list_update_same_conv)
  show ?thesis
    using e h m pipelined_step_executes_nothing [OF e h, of 3] by (simp add: r z)
qed



section \<open>Register 0\<close>

lemma countBranch_registers [simp]: "registers (countBranch s t) = registers s"
  by (simp add: countBranch_def predictBranch_def updateBranchPredictor_def Let_def
      split: option.splits prod.splits)

lemma executeInstruction_length:
  "length (registers (snd (executeInstruction i s))) = length (registers s)"
  by (simp add: executeInstruction_def executeR_def executeI_def executeJ_def setReg_def Let_def
      split: prod.splits)

lemma executeInstruction_ok: "fst (executeInstruction i s) = True"
  by (simp add: executeInstruction_def split: prod.splits)

lemma step_register_zero:
  assumes "0 < length (registers s)" and "registers s ! 0 = 0"
  shows "registers (snd (step s)) ! 0 = 0 \<and> length (registers (snd (step s))) = length (registers s)"
proof -
  have "registers (snd (finishStep t)) ! 0 = 0
      \<and> length (registers (snd (finishStep t))) = length (registers t)"
    if "0 < length (registers t)" for t
    using that by (simp add: finishStep_def)
  note f = this
  show ?thesis
  proof (cases "halted s")
    case True
    then show ?thesis using assms by (simp add: step_def)
  next
    case h: False
    show ?thesis
    proof (cases "pipeline_enabled s")
      case True
      then show ?thesis
        using h assms f [of "advancePipeline s"] by (simp add: step_def advancePipeline_frame)
    next
      case e: False
      show ?thesis
      proof (cases "isValidAddress s (pc s)")
        case False
        then show ?thesis using h e assms by (simp add: step_def)
      next
        case True
        let ?i = "decodeInstruction (wordAt (memory s) (pc s))"
        obtain ok s' where x: "executeInstruction ?i s = (ok, s')"
          by fastforce
        then have "ok"
          using executeInstruction_ok [of ?i s] by simp
        then have "step s = finishStep (snd (executeInstruction ?i s))"
          using h e True x by (simp add: step_def)
        then show ?thesis
          using assms f [of "snd (executeInstruction ?i s)"] by (simp add: executeInstruction_length)
      qed
    qed
  qed
qed

lemma executeWB_register_zero:
  assumes "executeWB p regs = Inr (p', regs')"
  shows "regs' ! 0 = regs ! 0 \<and> length regs' = length regs"
proof -
  have "unat w \<noteq> 0" if "w \<noteq> 0" for w :: u8
    using that by (simp add: unat_eq_0)
  then show ?thesis
    using assms by (auto simp: executeWB_def Let_def split: if_splits)
qed

lemma runStages_register_zero:
  assumes "runStages p f a regs mem = Inr (p', regs', mem')"
  shows "regs' ! 0 = regs ! 0 \<and> length regs' = length regs"
  using assms executeWB_register_zero
  by (fastforce simp: runStages_def split: sum.splits prod.splits)

lemma tick_register_zero:
  assumes "tick isValid p f a regs mem = Inr (p', regs', mem')"
  shows "regs' ! 0 = regs ! 0 \<and> length regs' = length regs"
  using assms runStages_register_zero
  by (fastforce simp: tick_def Let_def split: prod.splits if_splits)

lemma executeFormat_length:
  assumes "executeFormat i m = Inr (m', npc)"
  shows "length (m_registers m') = length (m_registers m)"
  using assms
  by (cases "format i")
     (auto simp: executeFormat_def writeRegister_def Let_def split: sum.splits)

lemma executeSingleCycle_register_zero:
  assumes "executeSingleCycle i m = Inr m'" and "0 < length (m_registers m)"
  shows "m_registers m' ! 0 = 0 \<and> length (m_registers m') = length (m_registers m)"
  using assms executeFormat_length
  by (fastforce simp: executeSingleCycle_def split: sum.splits prod.splits)

lemma MIPS_step_register_zero:
  assumes "MIPS_step isValid junk m = Inr m'"
    and "0 < length (m_registers m)" and "m_registers m ! 0 = 0"
  shows "m_registers m' ! 0 = 0 \<and> length (m_registers m') = length (m_registers m)"
proof (cases "unat (m_pc m) \<ge> (0x400000 + length (instructions m) * 4) mod 2 ^ 64")
  case True
  then show ?thesis using assms by (simp add: MIPS_step_def)
next
  case False
  then obtain w where w: "getMemoryWord (m_memory m) (m_pc m) = Inr w"
    using assms(1) by (auto simp: MIPS_step_def split: sum.splits)
  let ?i = "InstructionAt junk w (m_pc m)"
  show ?thesis
  proof (cases "pipelineEnabled m")
    case True
    then obtain p' regs' mem' where
      t: "tick isValid (pipeline m) ?i (m_pc m) (m_registers m) (m_memory m) = Inr (p', regs', mem')"
      and m': "m_registers m' = regs'"
      using assms(1) False w by (auto simp: MIPS_step_def Let_def split: sum.splits)
    from tick_register_zero [OF t] show ?thesis
      using assms m' by simp
  next
    case e: False
    then obtain m1 where x: "executeSingleCycle ?i m = Inr m1"
      and m': "m_registers m' = m_registers m1"
      using assms(1) False w by (auto simp: MIPS_step_def Let_def split: sum.splits)
    from executeSingleCycle_register_zero [OF x assms(2)] show ?thesis
      using m' by simp
  qed
qed


text \<open>
  C2. After a step register 0 reads 0, given that it did before (as it does from
  construction and \<open>reset\<close> on): \<open>MIPSSimulator::step\<close> and \<open>MIPS::executeSingleCycle\<close> clear
  it after whatever the instruction wrote, the write-back stage \<open>executeWB\<close> never writes
  it, and \<open>MIPS::step\<close> runs one of the latter two. A call that indexes outside a vector
  has no result to speak of.
\<close>

theorem register_zero_stays_zero:
  assumes "0 < length (registers s)" and "registers s ! 0 = 0"
    and "0 < length (m_registers m)" and "m_registers m ! 0 = 0"
  shows "registers (snd (step s)) ! 0 = 0
    \<and> (\<forall>m'. executeSingleCycle i m = Inr m' \<longrightarrow> m_registers m' ! 0 = 0)
    \<and> (\<forall>p' regs'. executeWB p (m_registers m) = Inr (p', regs') \<longrightarrow> regs' ! 0 = 0)
    \<and> (\<forall>m'. MIPS_step isValid junk m = Inr m' \<longrightarrow> m_registers m' ! 0 = 0)"
  using step_register_zero [OF assms(1,2)] executeSingleCycle_register_zero [OF _ assms(3)]
    executeWB_register_zero [of p "m_registers m"] MIPS_step_register_zero [OF _ assms(3,4)]
    assms(4)
  by simp


theorem register_zero_stays_zero_witness:
  "0 < length (registers (setMemory newMIPSSimulator 0 0x20000005))
   \<and> registers (setMemory newMIPSSimulator 0 0x20000005) ! 0 = 0
   \<and> 0 < length (m_registers (newMIPS zeroStage))
   \<and> m_registers (newMIPS zeroStage) ! 0 = 0
   \<and> registers (snd (step (setMemory newMIPSSimulator 0 0x20000005))) ! 0 = 0
   \<and> (\<exists>m'. executeSingleCycle (InstructionAt Instruction0 0x20000005 0x400000) (newMIPS zeroStage)
              = Inr m' \<and> m_registers m' ! 0 = 0)
   \<and> (\<exists>p' regs'. executeWB ((newPipeline zeroStage)\<lparr>MEM_WB := zeroStage\<lparr>ps_valid := True,
                        regWrite := True, writeReg := 0, writeData := 5\<rparr>\<rparr>)
                      (m_registers (newMIPS zeroStage)) = Inr (p', regs') \<and> regs' ! 0 = 0)
   \<and> (\<exists>m'. MIPS_step (\<lambda>i. True) Instruction0 (newMIPS zeroStage) = Inr m'
              \<and> m_registers m' ! 0 = 0)"
proof -
  let ?s = "setMemory newMIPSSimulator 0 0x20000005"
  let ?m = "newMIPS zeroStage"
  let ?i = "InstructionAt Instruction0 0x20000005 0x400000"
  let ?p = "(newPipeline zeroStage)\<lparr>MEM_WB := zeroStage\<lparr>ps_valid := True,
                        regWrite := True, writeReg := 0, writeData := 5\<rparr>\<rparr>"
  have h1: "0 < length (registers ?s)" and h2: "registers ?s ! 0 = 0"
    by (simp_all add: setMemory_def newMIPSSimulator_def)
  have h3: "0 < length (m_registers ?m)" and h4: "m_registers ?m ! 0 = 0"
    by (simp_all add: newMIPS_def)
  have d: "?i = Instruction0\<lparr>machineCode := 0x20000005, in_address := 0x400000, in_opcode := 8,
      in_type := I_TYPE, in_immediate := 5, signedImmediate := 5, format := ADDI\<rparr>"
    by (simp add: InstructionAt_def decode_def Instruction0_def getInstructionFormat_def)
  have e1: "\<exists>m'. executeSingleCycle ?i ?m = Inr m'"
    unfolding d by (simp add: executeSingleCycle_def executeFormat_def Let_def)
  have e2: "\<exists>p' regs'. executeWB ?p (m_registers ?m) = Inr (p', regs')"
    by (simp add: executeWB_def zeroStage_def)
  have e3: "\<exists>m'. MIPS_step (\<lambda>i. True) Instruction0 ?m = Inr m'"
    by (simp add: MIPS_step_def newMIPS_def)
  show ?thesis
    using h1 h2 h3 h4 e1 e2 e3
      register_zero_stays_zero [OF h1 h2 h3 h4, of ?i ?p "\<lambda>i. True" Instruction0]
    by blast
qed

section \<open>Branches in the EX stage\<close>

lemma decode_beq: "InstructionAt Instruction0 0x10220005 a =
  \<lparr>machineCode = 0x10220005, in_type = I_TYPE, format = BEQ, in_rs = 1, in_rt = 2, in_rd = 0,
   in_shamt = 0, in_funct = 0, in_immediate = 5, signedImmediate = 5, jumpTarget = 0,
   in_opcode = 4, assembly = [], in_address = a\<rparr>"
  by (simp add: InstructionAt_def decode_def Instruction0_def getInstructionFormat_def)

lemma decode_addi3: "InstructionAt Instruction0 0x20030001 a =
  \<lparr>machineCode = 0x20030001, in_type = I_TYPE, format = ADDI, in_rs = 0, in_rt = 3, in_rd = 0,
   in_shamt = 0, in_funct = 0, in_immediate = 1, signedImmediate = 1, jumpTarget = 0,
   in_opcode = 8, assembly = [], in_address = a\<rparr>"
  by (simp add: InstructionAt_def decode_def Instruction0_def getInstructionFormat_def)

lemma decode_addi4: "InstructionAt Instruction0 0x20040001 a =
  \<lparr>machineCode = 0x20040001, in_type = I_TYPE, format = ADDI, in_rs = 0, in_rt = 4, in_rd = 0,
   in_shamt = 0, in_funct = 0, in_immediate = 1, signedImmediate = 1, jumpTarget = 0,
   in_opcode = 8, assembly = [], in_address = a\<rparr>"
  by (simp add: InstructionAt_def decode_def Instruction0_def getInstructionFormat_def)

lemmas stage_defs = tick_def runStages_def executeWB_def executeMEM_def executeEX_def
  operandsEX_def executeID_def executeIF_def detectHazard_def detectDataHazard_def
  detectControlHazard_def shouldFlush_def shouldStall_def flushPipeline_def readReg_def
  getForwardedValue_def branchTaken_def performALU_def isBranch_def isJump_def isLoad_def
  isStore_def writesRD_def writesRT_def usesRS_def usesRT_def newPipeline_def
  newPipelineStage_def newHazardDetection_def zeroStage_def Instruction0_def latches_def
  Let_def

text \<open>
  What \<open>executeSingleCycle\<close> does with \<open>beq $1, $2, 5\<close> at 0x400000: it compares the two
  registers.
\<close>

lemma direct_beq_equal: "pcAfterSingleCycle 0x10220005 ((replicate 32 0)[1 := 9, 2 := 9]) = Some 0x400018"
  unfolding pcAfterSingleCycle_def decode_beq
  by (simp add: executeSingleCycle_def executeFormat_def R_def newMIPS_def)

lemma direct_beq_equal_5: "pcAfterSingleCycle 0x10220005 ((replicate 32 0)[1 := 5, 2 := 5]) = Some 0x400018"
  unfolding pcAfterSingleCycle_def decode_beq
  by (simp add: executeSingleCycle_def executeFormat_def R_def newMIPS_def)

lemma direct_beq_differ: "pcAfterSingleCycle 0x10220005 ((replicate 32 0)[1 := 5, 2 := 9]) = Some 0x400004"
  unfolding pcAfterSingleCycle_def decode_beq
  by (simp add: executeSingleCycle_def executeFormat_def R_def newMIPS_def)

text \<open>
  The pipeline fed with \<open>beq $1, $2, 5\<close>, \<open>addi $3, $0, 1\<close> and \<open>addi $4, $0, 1\<close>: the third
  call of \<open>tick\<close> has the branch in ID/EX and the first \<open>addi\<close> in IF/ID.
\<close>

lemma pipeline_beq_equal:
  "latchesAfter [(0x10220005, 0x400000), (0x20030001, 0x400004), (0x20040001, 0x400008)]
     ((replicate 32 0)[1 := 9, 2 := 9])
   = Some ((True, 0x20040001), (True, 0x20030001), (True, 0x10220005))"
  unfolding latchesAfter_def feed.simps decode_beq decode_addi3 decode_addi4
  by (simp add: stage_defs)

lemma pipeline_beq_equal_5:
  "latchesAfter [(0x10220005, 0x400000), (0x20030001, 0x400004), (0x20040001, 0x400008)]
     ((replicate 32 0)[1 := 5, 2 := 5])
   = Some ((True, 0x20040001), (False, 0x10220005), (True, 0x10220005))"
  unfolding latchesAfter_def feed.simps decode_beq decode_addi3 decode_addi4
  by (simp add: stage_defs)

lemma pipeline_beq_differ:
  "latchesAfter [(0x10220005, 0x400000), (0x20030001, 0x400004), (0x20040001, 0x400008)]
     ((replicate 32 0)[1 := 5, 2 := 9])
   = Some ((True, 0x20040001), (False, 0x10220005), (True, 0x10220005))"
  unfolding latchesAfter_def feed.simps decode_beq decode_addi3 decode_addi4
  by (simp add: stage_defs)

text \<open>
  C3. The code does not flush as the specification states. \<open>executeEX\<close> compares register
  rs of a \<open>beq\<close> with the sign-extended immediate, where \<open>executeSingleCycle\<close> compares it
  with register rt, and its flush leaves IF/ID alone. For \<open>beq $1, $2, 5\<close> at 0x400000,
  followed into the pipeline by two \<open>addi\<close>:

  \<^item> with $1 = $2 = 9 the branch is taken (\<open>executeSingleCycle\<close> goes to 0x400018), and the
    pipeline flushes nothing: after the branch has passed EX, IF/ID and ID/EX hold the
    two \<open>addi\<close>, both valid;
  \<^item> with $1 = $2 = 5 the branch is taken just the same, at the same pc and to the same
    target, and the pipeline turns ID/EX into a bubble; IF/ID holds the second \<open>addi\<close>,
    valid: one bubble, not two;
  \<^item> with $1 = 5 and $2 = 9 the branch is not taken (\<open>executeSingleCycle\<close> goes to
    0x400004), and the pipeline turns ID/EX into a bubble as for the taken branch.

  The first two cases have the same pc, target and outcome, hence the same prediction
  and the same misprediction or not, yet one is flushed and the other is not.
\<close>

theorem branch_flush_compares_immediate:
  "pcAfterSingleCycle 0x10220005 ((replicate 32 0)[1 := 9, 2 := 9]) = Some 0x400018
   \<and> latchesAfter [(0x10220005, 0x400000), (0x20030001, 0x400004), (0x20040001, 0x400008)]
        ((replicate 32 0)[1 := 9, 2 := 9])
       = Some ((True, 0x20040001), (True, 0x20030001), (True, 0x10220005))
   \<and> pcAfterSingleCycle 0x10220005 ((replicate 32 0)[1 := 5, 2 := 5]) = Some 0x400018
   \<and> latchesAfter [(0x10220005, 0x400000), (0x20030001, 0x400004), (0x20040001, 0x400008)]
        ((replicate 32 0)[1 := 5, 2 := 5])
       = Some ((True, 0x20040001), (False, 0x10220005), (True, 0x10220005))
   \<and> pcAfterSingleCycle 0x10220005 ((replicate 32 0)[1 := 5, 2 := 9]) = Some 0x400004
   \<and> latchesAfter [(0x10220005, 0x400000), (0x20030001, 0x400004), (0x20040001, 0x400008)]
        ((replicate 32 0)[1 := 5, 2 := 9])
       = Some ((True, 0x20040001), (False, 0x10220005), (True, 0x10220005))"
  by (simp only: direct_beq_equal direct_beq_equal_5 direct_beq_differ pipeline_beq_equal
      pipeline_beq_equal_5 pipeline_beq_differ simp_thms)

section \<open>The guard of getMemoryWord and setMemoryWord\<close>

text \<open>
  C7. The claim does not hold of the code at the last three addresses: for the address
  0xFFFFFFFD the sum \<open>address + 3\<close> wraps to 0, the guard passes, and both functions index
  the one-megabyte memory at 0xFFFFFFFD, outside the vector.
\<close>

theorem memory_guard_wraps:
  "getMemoryWord (replicate 0x100000 0) 0xFFFFFFFD = Inl OutOfBounds
   \<and> setMemoryWord (replicate 0x100000 0) 0xFFFFFFFD 0x11223344 = Inl OutOfBounds"
  by (simp add: getMemoryWord_def setMemoryWord_def inVector_def)


section \<open>The predictors\<close>

lemma shl1_mask: "shl1 k - 1 = mask (unat k)"
  by (simp add: shl1_def mask_eq_exp_minus_1)

lemma unat_index:
  fixes a :: u32
  shows "unat (drop_bit 2 a AND mask n) = (unat a div 4) mod 2 ^ n"
proof -
  have "unat (drop_bit 2 a AND mask n) = unat (take_bit n (drop_bit 2 a))"
    by (simp only: take_bit_eq_mask)
  also have "\<dots> = take_bit n (drop_bit 2 (unat a))"
    by (simp only: unsigned_take_bit_eq unat_drop_bit_eq)
  also have "\<dots> = (unat a div 4) mod 2 ^ n"
    by (simp add: take_bit_eq_mod drop_bit_eq_div)
  finally show ?thesis .
qed

lemma Bimodal_index: "unat (Bimodal_getIndex p a) = (unat a div 4) mod 2 ^ unat (indexBits p)"
  by (simp only: Bimodal_getIndex_def shl1_mask unat_index)

lemma unat_shl1:
  assumes "unat k \<le> 30"
  shows "unat (shl1 k) = 2 ^ unat k"
proof -
  have "unat k < 32"
    using assms by simp
  then have "(2::nat) ^ unat k < 2 ^ 32"
    by (intro power_strict_increasing) auto
  moreover have "word_of_nat (2 ^ unat k) = shl1 k"
    by (simp add: shl1_def)
  ultimately show ?thesis
    by (intro of_nat_inverse) simp_all
qed

lemma small_counter:
  fixes c :: u8
  assumes "unat c \<le> 3"
  shows "c = 0 \<or> c = 1 \<or> c = 2 \<or> c = 3"
proof -
  have c: "c = word_of_nat (unat c)"
    by simp
  have "unat c = 0 \<or> unat c = 1 \<or> unat c = 2 \<or> unat c = 3"
    using assms by arith
  then show ?thesis
    by (elim disjE) (subst c, simp)+
qed

lemma counterStep_fsm:
  assumes "unat c \<le> 3"
  shows "counterStep c taken = word_of_nat (fsm (unat c) taken)"
  using small_counter [OF assms] by (cases taken) (auto simp: counterStep_def)

lemma counterStep_bound:
  assumes "unat c \<le> 3"
  shows "unat (counterStep c taken) \<le> 3"
  using small_counter [OF assms] by (cases taken) (auto simp: counterStep_def)


subsection \<open>The two-bit bimodal predictor\<close>

lemma Bimodal_predict_pure: "snd (Bimodal_predict p a t) = p"
  by (simp add: Bimodal_predict_def Let_def)

lemma Bimodal_update_table:
  assumes "twoBit p"
  shows "table (Bimodal_update p a taken t)
     = (table p)[unat (Bimodal_getIndex p a)
          := counterStep (table p ! unat (Bimodal_getIndex p a)) taken]"
  using assms by (simp add: Bimodal_update_def Bimodal_predict_def Let_def)

lemma Bimodal_update_frame:
  "twoBit (Bimodal_update p a taken t) = twoBit p"
  "indexBits (Bimodal_update p a taken t) = indexBits p"
  by (simp_all add: Bimodal_update_def Bimodal_predict_def Let_def)

lemma Bimodal_perform_invariant:
  assumes "twoBit p" and "indexBits p = k" and "length (table p) = 2 ^ unat k"
    and "\<forall>e \<in> set (table p). unat e \<le> 3"
  shows "\<exists>p'. perform (Bimodal p) c = Bimodal p' \<and> twoBit p' \<and> indexBits p' = k
    \<and> length (table p') = 2 ^ unat k \<and> (\<forall>e \<in> set (table p'). unat e \<le> 3)"
proof (cases c)
  case (Predict a t)
  then show ?thesis
    using assms Bimodal_predict_pure [of p a t] by (cases "Bimodal_predict p a t") auto
next
  case (Update a taken t)
  let ?i = "unat (Bimodal_getIndex p a)"
  have i: "?i < length (table p)"
    using assms by (simp add: Bimodal_index)
  then have "unat (table p ! ?i) \<le> 3"
    using assms(4) by simp
  then have "unat (counterStep (table p ! ?i) taken) \<le> 3"
    by (rule counterStep_bound)
  then have "\<forall>e \<in> set ((table p)[?i := counterStep (table p ! ?i) taken]). unat e \<le> 3"
    using assms(4) by (metis insert_iff set_update_subset_insert subsetD)
  then show ?thesis
    using Update assms by (simp add: Bimodal_update_table Bimodal_update_frame)
next
  case Reset
  then show ?thesis
    using assms by (simp add: Bimodal_reset_def)
qed

lemma Bimodal_performAll_invariant:
  assumes "twoBit p" and "indexBits p = k" and "length (table p) = 2 ^ unat k"
    and "\<forall>e \<in> set (table p). unat e \<le> 3"
  shows "\<exists>p'. foldl perform (Bimodal p) cs = Bimodal p' \<and> twoBit p' \<and> indexBits p' = k
    \<and> length (table p') = 2 ^ unat k \<and> (\<forall>e \<in> set (table p'). unat e \<le> 3)"
  using assms
proof (induction cs arbitrary: p)
  case Nil
  then show ?case by simp
next
  case (Cons c cs)
  from Bimodal_perform_invariant [OF Cons.prems, of c]
  obtain p' where "perform (Bimodal p) c = Bimodal p'" "twoBit p'" "indexBits p' = k"
    "length (table p') = 2 ^ unat k" "\<forall>e \<in> set (table p'). unat e \<le> 3"
    by blast
  with Cons.IH [of p'] show ?case
    by simp
qed

text \<open>
  C4. The two-bit bimodal predictor with \<open>k\<close> index bits (\<open>k\<close> at most 30, where the
  source's \<open>1 << k\<close> is defined): every entry of the new table is WNT = 1; after any
  sequence of calls the entries are between 0 and 3; \<open>predict\<close> returns taken exactly when
  the entry at index \<open>(pc >> 2) mod 2^k\<close> is at least 2; and \<open>update\<close> replaces that entry
  by its successor in the four-state machine, saturating at 3 and at 0.
\<close>

theorem bimodal_two_bit_counter:
  assumes "unat k \<le> 30"
  shows "\<exists>p. performAll (create BIMODAL_2BIT k k') cs = Bimodal p
    \<and> (cs = [] \<longrightarrow> table p = replicate (2 ^ unat k) 1)
    \<and> length (table p) = 2 ^ unat k
    \<and> (\<forall>e \<in> set (table p). unat e \<le> 3)
    \<and> (\<forall>a t. fst (Bimodal_predict p a t)
           \<longleftrightarrow> 2 \<le> unat (table p ! ((unat a div 4) mod 2 ^ unat k)))
    \<and> (\<forall>a taken t. table (Bimodal_update p a taken t)
           = (table p)[(unat a div 4) mod 2 ^ unat k
               := word_of_nat (fsm (unat (table p ! ((unat a div 4) mod 2 ^ unat k))) taken)])"
proof -
  let ?p0 = "newBimodalPredictor BIMODAL_2BIT k"
  have p0: "twoBit ?p0" "indexBits ?p0 = k" "length (table ?p0) = 2 ^ unat k"
    "\<forall>e \<in> set (table ?p0). unat e \<le> 3"
    using assms by (simp_all add: newBimodalPredictor_def unat_shl1)
  from Bimodal_performAll_invariant [OF p0, of cs]
  obtain p where p: "foldl perform (Bimodal ?p0) cs = Bimodal p" "twoBit p" "indexBits p = k"
    "length (table p) = 2 ^ unat k" "\<forall>e \<in> set (table p). unat e \<le> 3"
    by blast
  have start: "cs = [] \<longrightarrow> table p = replicate (2 ^ unat k) 1"
    using p(1) assms by (auto simp: newBimodalPredictor_def unat_shl1)
  have i: "unat (Bimodal_getIndex p a) = (unat a div 4) mod 2 ^ unat k" for a
    using p(3) by (simp add: Bimodal_index)
  have pr: "fst (Bimodal_predict p a t) \<longleftrightarrow> 2 \<le> unat (table p ! ((unat a div 4) mod 2 ^ unat k))"
    for a t
    using p(2) by (simp add: Bimodal_predict_def Let_def i word_le_nat_alt)
  have up: "table (Bimodal_update p a taken t)
           = (table p)[(unat a div 4) mod 2 ^ unat k
               := word_of_nat (fsm (unat (table p ! ((unat a div 4) mod 2 ^ unat k))) taken)]"
    for a taken t
  proof -
    have "(unat a div 4) mod 2 ^ unat k < length (table p)"
      using p(4) by simp
    then have "unat (table p ! ((unat a div 4) mod 2 ^ unat k)) \<le> 3"
      using p(5) by simp
    then show ?thesis
      by (simp add: Bimodal_update_table [OF p(2)] i counterStep_fsm)
  qed
  show ?thesis
    using p(1,4,5) start pr up by (auto simp: performAll_def)
qed

theorem bimodal_two_bit_counter_witness:
  "unat (2 :: u32) \<le> 30
   \<and> (\<exists>p. performAll (create BIMODAL_2BIT 2 10) [Update 0x400000 True 0x400010] = Bimodal p
          \<and> table p = [2, 1, 1, 1] \<and> fst (Bimodal_predict p 0x400000 0x400010)
          \<and> table (Bimodal_update p 0x400000 False 0x400010) = [1, 1, 1, 1])"
proof -
  have h: "unat (2 :: u32) \<le> 30"
    by simp
  have e: "\<exists>p. performAll (create BIMODAL_2BIT 2 10) [Update 0x400000 True 0x400010] = Bimodal p
      \<and> table p = [2, 1, 1, 1]"
  proof -
    have r: "replicate 4 x = [x, x, x, x]" for x :: u8
      by (simp add: numeral_eq_Suc)
    show ?thesis
      by (simp add: performAll_def newBimodalPredictor_def Bimodal_update_def Bimodal_predict_def
          Bimodal_getIndex_def shl1_def counterStep_def Let_def r)
  qed
  from bimodal_two_bit_counter [OF h, of 10 "[Update 0x400000 True 0x400010]"]
  obtain p where p: "performAll (create BIMODAL_2BIT 2 10) [Update 0x400000 True 0x400010] = Bimodal p"
    and pr: "\<forall>a t. fst (Bimodal_predict p a t)
           \<longleftrightarrow> 2 \<le> unat (table p ! ((unat a div 4) mod 2 ^ unat (2 :: u32)))"
    and up: "\<forall>a taken t. table (Bimodal_update p a taken t)
           = (table p)[(unat a div 4) mod 2 ^ unat (2 :: u32)
               := word_of_nat (fsm (unat (table p ! ((unat a div 4) mod 2 ^ unat (2 :: u32)))) taken)]"
    by blast
  from e p have t: "table p = [2, 1, 1, 1]"
    by auto
  have "fst (Bimodal_predict p 0x400000 0x400010)"
    using pr t by simp
  moreover have "table (Bimodal_update p 0x400000 False 0x400010) = [1, 1, 1, 1]"
    using up t by simp
  ultimately show ?thesis
    using h p t by blast
qed


subsection \<open>Purity of predict and the statistics of update\<close>

lemma Static_predict_pure: "snd (Static_predict p a t) = p"
  by (simp add: Static_predict_def)

lemma BTFN_predict_pure: "snd (BTFN_predict p a t) = p"
  by (simp add: BTFN_predict_def)

lemma Gshare_predict_pure: "snd (Gshare_predict p a t) = p"
  by (simp add: Gshare_predict_def)

lemma Local_predict_pure: "snd (Local_predict p a t) = p"
  by (simp add: Local_predict_def Let_def)

lemma Tournament_predict_pure: "snd (Tournament_predict p a t) = p"
  by (simp add: Tournament_predict_def Gshare_predict_def Local_predict_def Let_def)

lemma predict_pure: "snd (predict p a t) = p"
  by (cases p)
     (simp_all add: case_prod_beta Static_predict_pure BTFN_predict_pure Bimodal_predict_pure
        Gshare_predict_pure Local_predict_pure Tournament_predict_pure)

lemma Static_update_stats:
  "stats (Static_update p a taken t)
     = countOutcome (countBranchTotal (stats p)) (fst (Static_predict p a t) = taken)"
  by (simp add: Static_update_def Static_predict_def)

lemma BTFN_update_stats:
  "stats (BTFN_update p a taken t)
     = countOutcome (countBranchTotal (stats p)) (fst (BTFN_predict p a t) = taken)"
  by (simp add: BTFN_update_def BTFN_predict_def)

lemma Bimodal_update_stats:
  "stats (Bimodal_update p a taken t)
     = countOutcome (countBranchTotal (stats p)) (fst (Bimodal_predict p a t) = taken)"
  by (simp add: Bimodal_update_def Bimodal_predict_def Bimodal_getIndex_def Let_def)

lemma Gshare_update_stats:
  "stats (Gshare_update p a taken t)
     = countOutcome (countBranchTotal (stats p)) (fst (Gshare_predict p a t) = taken)"
  by (simp add: Gshare_update_def Gshare_predict_def Gshare_getIndex_def Let_def)

lemma Local_update_stats:
  "stats (Local_update p a taken t)
     = countOutcome (countBranchTotal (stats p)) (fst (Local_predict p a t) = taken)"
  by (simp add: Local_update_def Local_predict_def getLocalIndex_def getPatternIndex_def Let_def)

lemma Tournament_update_stats:
  "stats (Tournament_update p a taken t)
     = countOutcome (countBranchTotal (stats p)) (fst (Tournament_predict p a t) = taken)"
  by (cases p)
     (simp add: Tournament_update_def Tournament_predict_def Gshare_predict_def
        Local_predict_def getChoiceIndex_def Let_def)

lemma update_stats:
  "getStats (update p a taken t)
     = countOutcome (countBranchTotal (getStats p)) (fst (predict p a t) = taken)"
  by (cases p)
     (simp_all add: case_prod_beta Static_update_stats BTFN_update_stats Bimodal_update_stats
        Gshare_update_stats Local_update_stats Tournament_update_stats)

lemma predict_stats: "getStats (snd (predict p a t)) = getStats p"
  by (simp add: predict_pure)

lemma countOutcome_consistent:
  assumes "correctPredictions st + mispredictions st = totalBranches st"
  shows "statsConsistent (countOutcome (countBranchTotal st) b)"
  using assms by (simp add: statsConsistent_def countOutcome_def countBranchTotal_def Let_def)

lemma Tournament_reset_stats: "stats (Tournament_reset p) = BranchStats0"
  by (cases p) (simp add: Tournament_reset_def)

lemma reset_stats: "getStats (reset_predictor p) = BranchStats0"
  by (cases p)
     (simp_all add: Static_reset_def BTFN_reset_def Bimodal_reset_def Gshare_reset_def
        Local_reset_def Tournament_reset_stats)

lemma create_stats: "getStats (create ty p1 p2) = BranchStats0"
  by (cases ty)
     (simp_all add: newStaticPredictor_def newBTFNPredictor_def newBimodalPredictor_def
        newGsharePredictor_def newLocalHistoryPredictor_def newTournamentPredictor_def)

lemma BranchStats0_consistent: "statsConsistent BranchStats0"
  by (simp add: statsConsistent_def BranchStats0_def)

lemma perform_consistent:
  assumes "statsConsistent (getStats p)"
  shows "statsConsistent (getStats (perform p c))"
proof (cases c)
  case (Predict a t)
  then show ?thesis using assms by (simp add: predict_pure)
next
  case (Update a taken t)
  have "correctPredictions (getStats p) + mispredictions (getStats p) = totalBranches (getStats p)"
    using assms by (simp add: statsConsistent_def)
  from countOutcome_consistent [OF this] show ?thesis
    using Update by (simp add: update_stats)
next
  case Reset
  then show ?thesis by (simp add: reset_stats BranchStats0_consistent)
qed

lemma performAll_consistent:
  assumes "statsConsistent (getStats p)"
  shows "statsConsistent (getStats (performAll p cs))"
  using assms unfolding performAll_def
  by (induction cs arbitrary: p) (simp_all add: perform_consistent)

text \<open>The three counters after an \<open>update\<close>, one by one.\<close>

lemma countOutcome_counters:
  "totalBranches (countOutcome (countBranchTotal st) b) = totalBranches st + 1"
  "correctPredictions (countOutcome (countBranchTotal st) b)
     = correctPredictions st + (if b then 1 else 0)"
  "mispredictions (countOutcome (countBranchTotal st) b)
     = mispredictions st + (if b then 0 else 1)"
  by (simp_all add: countOutcome_def countBranchTotal_def Let_def)

lemma update_counters:
  "totalBranches (getStats (update p a taken t)) = totalBranches (getStats p) + 1"
  "correctPredictions (getStats (update p a taken t))
     = correctPredictions (getStats p) + (if fst (predict p a t) = taken then 1 else 0)"
  "mispredictions (getStats (update p a taken t))
     = mispredictions (getStats p) + (if fst (predict p a t) = taken then 0 else 1)"
  by (simp_all only: update_stats countOutcome_counters)

subsection \<open>The map-based predictor\<close>

lemma sint_of_nat_small:
  assumes "n < 2 ^ 31"
  shows "sint (word_of_nat n :: i32) = int n"
proof -
  have "sint (word_of_nat n :: i32) = signed_take_bit 31 (int n)"
    by (simp add: signed_of_nat)
  also have "\<dots> = int n"
    using assms by (simp add: signed_take_bit_int_eq_self)
  finally show ?thesis .
qed

lemma sint_succ:
  assumes "sint (x :: i32) < 2 ^ 31 - 1"
  shows "sint (x + 1) = sint x + 1"
proof -
  have l: "- (2 ^ 31) \<le> sint x"
    using sint_ge [of x] by simp
  have "sint (x + 1) = signed_take_bit 31 (sint x + 1)"
    by (simp add: sint_word_ariths)
  also have "\<dots> = sint x + 1"
    using assms l by (simp add: signed_take_bit_int_eq_self)
  finally show ?thesis .
qed

lemma BHT_predict_stats:
  "total_predictions (bht_stats (snd (BHT_predict q a))) = total_predictions (bht_stats q) + 1"
  "bht_correct_predictions (bht_stats (snd (BHT_predict q a))) = bht_correct_predictions (bht_stats q)"
  "bht_incorrect_predictions (bht_stats (snd (BHT_predict q a))) = bht_incorrect_predictions (bht_stats q)"
  by (simp_all add: BHT_predict_def Let_def split: BHTType.splits option.splits)

lemma BHT_update_total:
  "total_predictions (bht_stats (BHT_update q a outcome)) = total_predictions (bht_stats q)"
  by (simp add: BHT_update_def Let_def split: BHTType.splits option.splits prod.splits)

lemma BHT_update_counts:
  "bht_correct_predictions (bht_stats (BHT_update q a outcome))
     = bht_correct_predictions (bht_stats q) + (if fst (BHT_predict q a) = outcome then 1 else 0)"
  "bht_incorrect_predictions (bht_stats (BHT_update q a outcome))
     = bht_incorrect_predictions (bht_stats q) + (if fst (BHT_predict q a) = outcome then 0 else 1)"
  by (auto simp: BHT_update_def BHT_predict_def Let_def split: BHTType.splits option.splits prod.splits)

lemma BHT_update_accuracy:
  assumes "0 < sint (total_predictions (bht_stats (BHT_update q a outcome)))"
  shows "bht_accuracy (bht_stats (BHT_update q a outcome))
     = Dpct (sint (bht_correct_predictions (bht_stats (BHT_update q a outcome))))
         (sint (total_predictions (bht_stats (BHT_update q a outcome))))"
  using assms
  by (auto simp: BHT_update_def Let_def split: BHTType.splits option.splits prod.splits)

text \<open>
  The counters after a sequence of calls, in the arithmetic of the 32-bit words: the total
  has grown by the number of \<open>predict\<close> calls, and correct and incorrect together by the
  number of \<open>update\<close> calls.
\<close>

lemma BHT_performAll_counts:
  "\<exists>nc ni. nc + ni = length (filter (\<lambda>c. \<not> isPredictCall c) cs)
     \<and> total_predictions (bht_stats (foldl BHT_perform q cs))
         = total_predictions (bht_stats q) + word_of_nat (length (filter isPredictCall cs))
     \<and> bht_correct_predictions (bht_stats (foldl BHT_perform q cs))
         = bht_correct_predictions (bht_stats q) + word_of_nat nc
     \<and> bht_incorrect_predictions (bht_stats (foldl BHT_perform q cs))
         = bht_incorrect_predictions (bht_stats q) + word_of_nat ni"
proof (induction cs arbitrary: q)
  case Nil
  show ?case by simp
next
  case (Cons c cs)
  show ?case
  proof (cases c)
    case (BHT_Predict a)
    let ?q = "snd (BHT_predict q a)"
    from Cons.IH [of ?q] obtain nc ni where
      n: "nc + ni = length (filter (\<lambda>c. \<not> isPredictCall c) cs)"
      and t: "total_predictions (bht_stats (foldl BHT_perform ?q cs))
         = total_predictions (bht_stats ?q) + word_of_nat (length (filter isPredictCall cs))"
      and c: "bht_correct_predictions (bht_stats (foldl BHT_perform ?q cs))
         = bht_correct_predictions (bht_stats ?q) + word_of_nat nc"
      and i: "bht_incorrect_predictions (bht_stats (foldl BHT_perform ?q cs))
         = bht_incorrect_predictions (bht_stats ?q) + word_of_nat ni"
      by blast
    show ?thesis
      apply (rule exI [of _ nc], rule exI [of _ ni])
      using n t c i BHT_Predict by (simp add: BHT_predict_stats)
  next
    case (BHT_Update a outcome)
    let ?q = "BHT_update q a outcome"
    let ?ok = "fst (BHT_predict q a) = outcome"
    from Cons.IH [of ?q] obtain nc ni where
      n: "nc + ni = length (filter (\<lambda>c. \<not> isPredictCall c) cs)"
      and t: "total_predictions (bht_stats (foldl BHT_perform ?q cs))
         = total_predictions (bht_stats ?q) + word_of_nat (length (filter isPredictCall cs))"
      and c: "bht_correct_predictions (bht_stats (foldl BHT_perform ?q cs))
         = bht_correct_predictions (bht_stats ?q) + word_of_nat nc"
      and i: "bht_incorrect_predictions (bht_stats (foldl BHT_perform ?q cs))
         = bht_incorrect_predictions (bht_stats ?q) + word_of_nat ni"
      by blast
    show ?thesis
      apply (rule exI [of _ "(if ?ok then 1 else 0) + nc"])
      apply (rule exI [of _ "(if ?ok then 0 else 1) + ni"])
      using n t c i BHT_Update by (simp add: BHT_update_total BHT_update_counts)
  qed
qed

text \<open>
  From a new predictor and for fewer than 2^31 calls the counters, read as \<open>int\<close>, are
  those numbers.
\<close>

lemma BHT_fresh_counts:
  assumes "length cs < 2 ^ 31"
  shows "sint (total_predictions (bht_stats (BHT_performAll (newBHTPredictor bt) cs)))
       = int (length (filter isPredictCall cs))"
    and "sint (bht_correct_predictions (bht_stats (BHT_performAll (newBHTPredictor bt) cs)))
       + sint (bht_incorrect_predictions (bht_stats (BHT_performAll (newBHTPredictor bt) cs)))
       = int (length (filter (\<lambda>c. \<not> isPredictCall c) cs))"
proof -
  let ?q = "newBHTPredictor bt"
  from BHT_performAll_counts [of cs ?q] obtain nc ni where
    n: "nc + ni = length (filter (\<lambda>c. \<not> isPredictCall c) cs)"
    and t: "total_predictions (bht_stats (BHT_performAll ?q cs))
       = word_of_nat (length (filter isPredictCall cs))"
    and c: "bht_correct_predictions (bht_stats (BHT_performAll ?q cs)) = word_of_nat nc"
    and i: "bht_incorrect_predictions (bht_stats (BHT_performAll ?q cs)) = word_of_nat ni"
    by (auto simp: BHT_performAll_def newBHTPredictor_def)
  have lt: "length (filter isPredictCall cs) < 2 ^ 31"
    by (rule le_less_trans [OF length_filter_le assms])
  have "length (filter (\<lambda>c. \<not> isPredictCall c) cs) < 2 ^ 31"
    by (rule le_less_trans [OF length_filter_le assms])
  then have "nc + ni < 2 ^ 31"
    by (simp only: n)
  then have lc: "nc < 2 ^ 31" and li: "ni < 2 ^ 31"
    by simp_all
  show "sint (total_predictions (bht_stats (BHT_performAll ?q cs)))
       = int (length (filter isPredictCall cs))"
    unfolding t by (rule sint_of_nat_small [OF lt])
  show "sint (bht_correct_predictions (bht_stats (BHT_performAll ?q cs)))
       + sint (bht_incorrect_predictions (bht_stats (BHT_performAll ?q cs)))
       = int (length (filter (\<lambda>c. \<not> isPredictCall c) cs))"
    unfolding c i sint_of_nat_small [OF lc] sint_of_nat_small [OF li] using n by simp
qed

text \<open>
  C5, as the specification states it, fails for the map-based predictor: after one call
  of \<open>predict\<close> the total is 1 while correct and incorrect are both 0.
\<close>

theorem counts_disagree_after_predict:
  "sint (total_predictions (bht_stats (BHT_performAll (newBHTPredictor BHT_STATIC_NOT_TAKEN) [BHT_Predict 0x400000]))) = 1
   \<and> sint (bht_correct_predictions (bht_stats (BHT_performAll (newBHTPredictor BHT_STATIC_NOT_TAKEN) [BHT_Predict 0x400000]))) = 0
   \<and> sint (bht_incorrect_predictions (bht_stats (BHT_performAll (newBHTPredictor BHT_STATIC_NOT_TAKEN) [BHT_Predict 0x400000]))) = 0"
  by (simp add: BHT_performAll_def BHT_predict_def newBHTPredictor_def)

text \<open>
  C5, amended. For a predictor of \<open>BranchPredictor.hpp\<close> built by the factory with widths of
  at most 30 bits, after any sequence of \<open>predict\<close>, \<open>update\<close> and \<open>reset\<close> calls,
  correct + mispredicted = total and, whenever total > 0, accuracy is the double that
  \<open>(double)correct / total\<close> evaluates to. For the map-based predictor of
  \<open>branch_predictor.hpp\<close>, after fewer than 2^31 calls from its construction, the total is
  the number of \<open>predict\<close> calls and correct + incorrect is the number of \<open>update\<close> calls; and
  an \<open>update\<close> that leaves a positive total sets the accuracy to the double that
  \<open>(double)correct / total * 100.0\<close> evaluates to.
\<close>

theorem predictor_statistics:
  assumes "unat p1 \<le> 30" and "unat p2 \<le> 30" and "length bcs < 2 ^ 31"
  shows "statsConsistent (getStats (performAll (create ty p1 p2) cs))
   \<and> sint (total_predictions (bht_stats (BHT_performAll (newBHTPredictor bt) bcs)))
       = int (length (filter isPredictCall bcs))
   \<and> sint (bht_correct_predictions (bht_stats (BHT_performAll (newBHTPredictor bt) bcs)))
       + sint (bht_incorrect_predictions (bht_stats (BHT_performAll (newBHTPredictor bt) bcs)))
       = int (length (filter (\<lambda>c. \<not> isPredictCall c) bcs))
   \<and> (0 < sint (total_predictions (bht_stats (BHT_update q a outcome))) \<longrightarrow>
        bht_accuracy (bht_stats (BHT_update q a outcome))
          = Dpct (sint (bht_correct_predictions (bht_stats (BHT_update q a outcome))))
              (sint (total_predictions (bht_stats (BHT_update q a outcome)))))"
proof -
  have "statsConsistent (getStats (create ty p1 p2))"
    by (simp add: create_stats BranchStats0_consistent)
  then have "statsConsistent (getStats (performAll (create ty p1 p2) cs))"
    by (rule performAll_consistent)
  then show ?thesis
    using BHT_fresh_counts [OF assms(3), of bt] BHT_update_accuracy [of q a outcome]
    by blast
qed

theorem predictor_statistics_witness:
  "unat (4 :: u32) \<le> 30
   \<and> length [BHT_Predict 0x400000, BHT_Update 0x400000 False] < 2 ^ 31
   \<and> totalBranches (getStats (performAll (create GSHARE 4 4)
         [Update 0x400000 True 0x400010, Update 0x400000 False 0x400010])) = 2
   \<and> correctPredictions (getStats (performAll (create GSHARE 4 4)
         [Update 0x400000 True 0x400010, Update 0x400000 False 0x400010])) = 1
   \<and> mispredictions (getStats (performAll (create GSHARE 4 4)
         [Update 0x400000 True 0x400010, Update 0x400000 False 0x400010])) = 1
   \<and> accuracy (getStats (performAll (create GSHARE 4 4)
         [Update 0x400000 True 0x400010, Update 0x400000 False 0x400010])) = Dquot 1 2
   \<and> statsConsistent (getStats (performAll (create GSHARE 4 4)
         [Update 0x400000 True 0x400010, Update 0x400000 False 0x400010]))
   \<and> sint (total_predictions (bht_stats (BHT_performAll (newBHTPredictor DYNAMIC_2BIT)
         [BHT_Predict 0x400000, BHT_Update 0x400000 False]))) = 1
   \<and> sint (bht_correct_predictions (bht_stats (BHT_performAll (newBHTPredictor DYNAMIC_2BIT)
         [BHT_Predict 0x400000, BHT_Update 0x400000 False])))
       + sint (bht_incorrect_predictions (bht_stats (BHT_performAll (newBHTPredictor DYNAMIC_2BIT)
         [BHT_Predict 0x400000, BHT_Update 0x400000 False]))) = 1
   \<and> 0 < sint (total_predictions
           (bht_stats (BHT_update (snd (BHT_predict (newBHTPredictor DYNAMIC_2BIT) 0x400000)) 0x400000 False)))
   \<and> bht_accuracy
        (bht_stats (BHT_update (snd (BHT_predict (newBHTPredictor DYNAMIC_2BIT) 0x400000)) 0x400000 False))
       = Dpct 1 1"
proof -
  let ?cs = "[Update 0x400000 True 0x400010, Update 0x400000 False 0x400010]"
  let ?bcs = "[BHT_Predict 0x400000, BHT_Update 0x400000 False]"
  let ?q = "snd (BHT_predict (newBHTPredictor DYNAMIC_2BIT) 0x400000)"
  have h1: "unat (4 :: u32) \<le> 30"
    by simp
  have h3: "length ?bcs < 2 ^ 31"
    by simp
  have g: "getStats (performAll (create GSHARE 4 4) ?cs)
    = \<lparr>totalBranches = 2, correctPredictions = 1, mispredictions = 1, accuracy = Dquot 1 2\<rparr>"
    by (simp add: performAll_def Gshare_update_def Gshare_predict_def Gshare_getIndex_def
        newGsharePredictor_def shl1_def counterStep_def countOutcome_def countBranchTotal_def
        BranchStats0_def Let_def word_le_nat_alt)
  have n: "sint (total_predictions (bht_stats (BHT_update ?q 0x400000 False))) = 1"
    by (simp add: BHT_update_total BHT_predict_stats newBHTPredictor_def)
  have c: "sint (bht_correct_predictions (bht_stats (BHT_update ?q 0x400000 False))) = 1"
    by (simp add: BHT_update_counts BHT_predict_stats)
       (simp add: BHT_predict_def newBHTPredictor_def WEAKLY_NOT_TAKEN_def WEAKLY_TAKEN_def
          STRONGLY_TAKEN_def)
  show ?thesis
    using h1 h3 g n c
      predictor_statistics [OF h1 h1 h3, of GSHARE ?cs DYNAMIC_2BIT ?q "0x400000" False]
    by simp
qed

text \<open>
  C6, as the specification states it, fails for the map-based predictor: \<open>predict\<close> on a
  new two-bit predictor enters the pc into the table and raises the total from 0 to 1.
\<close>

theorem predict_changes_state:
  "bht (newBHTPredictor DYNAMIC_2BIT) 0x400000 = None
   \<and> bht (snd (BHT_predict (newBHTPredictor DYNAMIC_2BIT) 0x400000)) 0x400000 = Some 1
   \<and> sint (total_predictions (bht_stats (newBHTPredictor DYNAMIC_2BIT))) = 0
   \<and> sint (total_predictions (bht_stats (snd (BHT_predict (newBHTPredictor DYNAMIC_2BIT) 0x400000)))) = 1"
  by (simp add: BHT_predict_def newBHTPredictor_def WEAKLY_NOT_TAKEN_def)

text \<open>
  C6, amended. Let \<open>p\<close> be a predictor of \<open>BranchPredictor.hpp\<close>, built by the factory with
  widths of at most 30 bits and taken through any sequence of calls. \<open>predict\<close> leaves
  \<open>p\<close> as it is. \<open>update\<close> adds one to the total and one to either correct or mispredicted:
  to correct exactly when the outcome equals what \<open>predict\<close> returns at that pc before the
  update, to mispredicted otherwise. For the map-based predictor of
  \<open>branch_predictor.hpp\<close>, with its counters below the largest \<open>int\<close>, \<open>predict\<close> adds one
  to the total, and \<open>update\<close> adds one to correct exactly when the outcome equals the
  prediction recomputed from the table, and one to incorrect otherwise.
\<close>

theorem predict_is_a_query:
  assumes "unat p1 \<le> 30" and "unat p2 \<le> 30" and "p = performAll (create ty p1 p2) cs"
    and "sint (total_predictions (bht_stats q)) < 2 ^ 31 - 1"
    and "sint (bht_correct_predictions (bht_stats q)) < 2 ^ 31 - 1"
    and "sint (bht_incorrect_predictions (bht_stats q)) < 2 ^ 31 - 1"
  shows "snd (predict p a t) = p
   \<and> totalBranches (getStats (update p a taken t)) = totalBranches (getStats p) + 1
   \<and> correctPredictions (getStats (update p a taken t))
       = correctPredictions (getStats p) + (if fst (predict p a t) = taken then 1 else 0)
   \<and> mispredictions (getStats (update p a taken t))
       = mispredictions (getStats p) + (if fst (predict p a t) = taken then 0 else 1)
   \<and> sint (total_predictions (bht_stats (snd (BHT_predict q b))))
       = sint (total_predictions (bht_stats q)) + 1
   \<and> sint (bht_correct_predictions (bht_stats (BHT_update q b outcome)))
       = sint (bht_correct_predictions (bht_stats q))
         + (if fst (BHT_predict q b) = outcome then 1 else 0)
   \<and> sint (bht_incorrect_predictions (bht_stats (BHT_update q b outcome)))
       = sint (bht_incorrect_predictions (bht_stats q))
         + (if fst (BHT_predict q b) = outcome then 0 else 1)"
proof -
  have "sint (total_predictions (bht_stats (snd (BHT_predict q b))))
       = sint (total_predictions (bht_stats q)) + 1"
    by (simp only: BHT_predict_stats sint_succ [OF assms(4)])
  moreover have "sint (bht_correct_predictions (bht_stats (BHT_update q b outcome)))
       = sint (bht_correct_predictions (bht_stats q))
         + (if fst (BHT_predict q b) = outcome then 1 else 0)"
    by (simp add: BHT_update_counts sint_succ [OF assms(5)])
  moreover have "sint (bht_incorrect_predictions (bht_stats (BHT_update q b outcome)))
       = sint (bht_incorrect_predictions (bht_stats q))
         + (if fst (BHT_predict q b) = outcome then 0 else 1)"
    by (simp add: BHT_update_counts sint_succ [OF assms(6)])
  ultimately show ?thesis
    by (simp only: predict_pure update_counters simp_thms)
qed

theorem predict_is_a_query_witness:
  "unat (4 :: u32) \<le> 30
   \<and> create GSHARE 4 4 = performAll (create GSHARE 4 4) []
   \<and> sint (total_predictions (bht_stats (newBHTPredictor BHT_STATIC_TAKEN))) < 2 ^ 31 - 1
   \<and> sint (bht_correct_predictions (bht_stats (newBHTPredictor BHT_STATIC_TAKEN))) < 2 ^ 31 - 1
   \<and> sint (bht_incorrect_predictions (bht_stats (newBHTPredictor BHT_STATIC_TAKEN))) < 2 ^ 31 - 1
   \<and> predict (create GSHARE 4 4) 0x400000 0x400010 = (False, create GSHARE 4 4)
   \<and> totalBranches (getStats (update (create GSHARE 4 4) 0x400000 True 0x400010)) = 1
   \<and> correctPredictions (getStats (update (create GSHARE 4 4) 0x400000 True 0x400010)) = 0
   \<and> mispredictions (getStats (update (create GSHARE 4 4) 0x400000 True 0x400010)) = 1
   \<and> totalBranches (getStats (update (create GSHARE 4 4) 0x400000 False 0x400010)) = 1
   \<and> correctPredictions (getStats (update (create GSHARE 4 4) 0x400000 False 0x400010)) = 1
   \<and> mispredictions (getStats (update (create GSHARE 4 4) 0x400000 False 0x400010)) = 0
   \<and> sint (total_predictions (bht_stats (snd (BHT_predict (newBHTPredictor BHT_STATIC_TAKEN) 0x400000)))) = 1
   \<and> sint (bht_correct_predictions (bht_stats (BHT_update (newBHTPredictor BHT_STATIC_TAKEN) 0x400000 True))) = 1
   \<and> sint (bht_incorrect_predictions (bht_stats (BHT_update (newBHTPredictor BHT_STATIC_TAKEN) 0x400000 True))) = 0"
proof -
  let ?p = "create GSHARE 4 4"
  let ?q = "newBHTPredictor BHT_STATIC_TAKEN"
  have h1: "unat (4 :: u32) \<le> 30"
    by simp
  have h3: "?p = performAll ?p []"
    by (simp add: performAll_def)
  have h4: "sint (total_predictions (bht_stats ?q)) < 2 ^ 31 - 1"
    by (simp add: newBHTPredictor_def)
  have h5: "sint (bht_correct_predictions (bht_stats ?q)) < 2 ^ 31 - 1"
    by (simp add: newBHTPredictor_def)
  have h6: "sint (bht_incorrect_predictions (bht_stats ?q)) < 2 ^ 31 - 1"
    by (simp add: newBHTPredictor_def)
  have f: "fst (predict ?p 0x400000 0x400010) = False"
    by (simp add: Gshare_predict_def Gshare_getIndex_def newGsharePredictor_def shl1_def Let_def
        word_le_nat_alt)
  have s: "getStats ?p = BranchStats0"
    by (rule create_stats)
  have z: "sint (total_predictions (bht_stats ?q)) = 0"
    "sint (bht_correct_predictions (bht_stats ?q)) = 0"
    "sint (bht_incorrect_predictions (bht_stats ?q)) = 0"
    by (simp_all add: newBHTPredictor_def)
  have bf: "fst (BHT_predict ?q 0x400000) = True"
    by (simp add: BHT_predict_def newBHTPredictor_def)
  have pr: "predict ?p 0x400000 0x400010 = (False, ?p)"
    using f predict_is_a_query [OF h1 h1 h3 h4 h5 h6, of "0x400000" "0x400010"]
    by (simp add: prod_eq_iff del: create.simps)
  show ?thesis
    using h1 h3 h4 h5 h6 pr f s z bf
      predict_is_a_query [OF h1 h1 h3 h4 h5 h6, of "0x400000" "0x400010" True "0x400000" True]
      predict_is_a_query [OF h1 h1 h3 h4 h5 h6, of "0x400000" "0x400010" False "0x400000" True]
    by (simp add: BranchStats0_def del: create.simps)
qed

end
